theory Spec2Isabelle
  imports Complex_Main
begin

text \<open>
  A model of \<^verbatim>\<open>app.js\<close>, the notifier that polls Elasticsearch indexes for alerts and
  posts them to a Slack channel. The program starts six asynchronous functions: one drains
  the index of unsent messages, the other five each dispatch the records of one alert
  index. Each of them is sequential (every call is awaited), so each is modelled as a
  function from the answers of the outside world to the list of calls it makes.
\<close>

section \<open>JavaScript numbers\<close>

text \<open>
  The formatters of \<^verbatim>\<open>app.js\<close> multiply a usage fraction by 100 and splice the product
  into a template literal, so the model needs the two operations of the language that this
  involves: multiplication of Numbers (IEEE 754 binary64, round to nearest, ties to even)
  and \<^verbatim>\<open>Number::toString\<close> (the shortest decimal that reads back as the same Number).

  A finite Number is represented by its exact value, a rational. The two zeros are
  identified: the program only multiplies and prints, and both zeros print as \<^verbatim>\<open>0\<close>.
\<close>

datatype jsnum = Finite rat | NaN | PosInfinity | NegInfinity

text \<open>The number of binary and of decimal digits of a positive integer.\<close>

function bit_length :: "int \<Rightarrow> int" where
  "bit_length n = (if n \<le> 0 then 0 else 1 + bit_length (n div 2))"
  by pat_completeness auto
termination
  by (relation "measure nat") auto

declare bit_length.simps [simp del]

function decimal_length :: "int \<Rightarrow> int" where
  "decimal_length n = (if n \<le> 0 then 0 else 1 + decimal_length (n div 10))"
  by pat_completeness auto
termination
  by (relation "measure nat") auto

declare decimal_length.simps [simp del]

definition pow_int :: "rat \<Rightarrow> int \<Rightarrow> rat" where
  "pow_int b e = (if 0 \<le> e then b ^ nat e else 1 / b ^ nat (- e))"

text \<open>\<open>floor_log2 a\<close> is the \<open>e\<close> with \<open>2^e \<le> a < 2^(e+1)\<close>, for \<open>a > 0\<close>.\<close>

definition floor_log2 :: "rat \<Rightarrow> int" where
  "floor_log2 a =
     (if 1 \<le> a then bit_length \<lfloor>a\<rfloor> - 1 else - bit_length (\<lceil>1 / a\<rceil> - 1))"

text \<open>\<open>floor_log10 a\<close> is the \<open>e\<close> with \<open>10^e \<le> a < 10^(e+1)\<close>, for \<open>a > 0\<close>.\<close>

definition floor_log10 :: "rat \<Rightarrow> int" where
  "floor_log10 a =
     (if 1 \<le> a then decimal_length \<lfloor>a\<rfloor> - 1 else - decimal_length (\<lceil>1 / a\<rceil> - 1))"

definition round_half_even :: "rat \<Rightarrow> int" where
  "round_half_even r =
     (let f = \<lfloor>r\<rfloor>; d = r - of_int f
      in if d < 1 / 2 then f
         else if 1 / 2 < d then f + 1
         else if even f then f else f + 1)"

text \<open>
  Rounding a real value to binary64: 53 significant bits, the exponent of the last bit
  no smaller than \<open>-1074\<close> (subnormal numbers), overflow to an infinity.
\<close>

definition round_to_double :: "rat \<Rightarrow> jsnum" where
  "round_to_double x =
     (if x = 0 then Finite 0
      else
        let a = \<bar>x\<bar>;
            q = max (floor_log2 a - 52) (- 1074);
            m = round_half_even (a / pow_int 2 q);
            v = of_int m * pow_int 2 q
        in if 2 ^ 1024 \<le> v then (if 0 < x then PosInfinity else NegInfinity)
           else Finite (if 0 < x then v else - v))"

fun js_negate :: "jsnum \<Rightarrow> jsnum" where
  "js_negate (Finite a) = Finite (- a)"
| "js_negate NaN = NaN"
| "js_negate PosInfinity = NegInfinity"
| "js_negate NegInfinity = PosInfinity"

text \<open>The operator \<^verbatim>\<open>*\<close> on two Numbers.\<close>

fun js_times :: "jsnum \<Rightarrow> jsnum \<Rightarrow> jsnum" where
  "js_times (Finite a) (Finite b) = round_to_double (a * b)"
| "js_times NaN y = NaN"
| "js_times x NaN = NaN"
| "js_times (Finite a) y = (if a = 0 then NaN else if 0 < a then y else js_negate y)"
| "js_times x (Finite b) = (if b = 0 then NaN else if 0 < b then x else js_negate x)"
| "js_times PosInfinity y = y"
| "js_times NegInfinity y = js_negate y"

subsection \<open>Number::toString\<close>

text \<open>The decimal digits of a non-negative integer.\<close>

function digits :: "int \<Rightarrow> string" where
  "digits n =
     (if n < 10 then [''0123456789'' ! nat n]
      else digits (n div 10) @ [''0123456789'' ! nat (n mod 10)])"
  by pat_completeness auto
termination
  by (relation "measure nat") auto

declare digits.simps [simp del]

text \<open>
  The candidates with \<open>k\<close> digits for a positive Number \<open>x\<close>: the pairs \<open>(n, s)\<close> with
  \<open>10^(k-1) \<le> s < 10^k\<close> for which \<open>s * 10^(n-k)\<close> rounds to \<open>x\<close>. Only the two integers
  next to \<open>x / 10^(n-k)\<close> can be closest to \<open>x\<close>, and \<open>n\<close> is the decimal exponent of \<open>x\<close>
  or one more (when the decimal rounds up to a power of ten).
\<close>

definition candidates :: "rat \<Rightarrow> nat \<Rightarrow> (int \<times> int) list" where
  "candidates x k =
     [(n, s).
        n \<leftarrow> [floor_log10 x + 1, floor_log10 x + 2],
        s \<leftarrow> remdups [\<lfloor>x / pow_int 10 (n - int k)\<rfloor>, \<lceil>x / pow_int 10 (n - int k)\<rceil>],
        10 ^ (k - 1) \<le> s \<and> s < 10 ^ k
          \<and> round_to_double (of_int s * pow_int 10 (n - int k)) = Finite x]"

text \<open>Among the candidates, the one closest to \<open>x\<close>; of two equally close, the even one.\<close>

fun closest :: "rat \<Rightarrow> nat \<Rightarrow> (int \<times> int) \<Rightarrow> (int \<times> int) list \<Rightarrow> int \<times> int" where
  "closest x k best [] = best"
| "closest x k (n, s) ((n', s') # cs) =
     (let d = \<bar>of_int s * pow_int 10 (n - int k) - x\<bar>;
          d' = \<bar>of_int s' * pow_int 10 (n' - int k) - x\<bar>
      in if d' < d \<or> (d' = d \<and> even s' \<and> odd s)
         then closest x k (n', s') cs
         else closest x k (n, s) cs)"

text \<open>
  The smallest number of digits that has a candidate. Seventeen digits identify every
  binary64 value, so the search over \<open>ks\<close> = 1, ..., 17 finds one for every Number.
\<close>

fun shortest :: "rat \<Rightarrow> nat list \<Rightarrow> (nat \<times> int \<times> int) option" where
  "shortest x [] = None"
| "shortest x (k # ks) =
     (case candidates x k of
        [] \<Rightarrow> shortest x ks
      | c # cs \<Rightarrow> (case closest x k c cs of (n, s) \<Rightarrow> Some (k, n, s)))"

definition layout :: "nat \<Rightarrow> int \<Rightarrow> string \<Rightarrow> string" where
  "layout k n ds =
     (if int k \<le> n \<and> n \<le> 21 then ds @ replicate (nat (n - int k)) CHR ''0''
      else if 0 < n \<and> n \<le> 21 then take (nat n) ds @ ''.'' @ drop (nat n) ds
      else if - 6 < n \<and> n \<le> 0 then ''0.'' @ replicate (nat (- n)) CHR ''0'' @ ds
      else
        (if k = 1 then ds else take 1 ds @ ''.'' @ drop 1 ds)
          @ ''e'' @ (if n - 1 < 0 then ''-'' else ''+'') @ digits \<bar>n - 1\<bar>)"

definition positive_to_string :: "rat \<Rightarrow> string" where
  "positive_to_string x =
     (case shortest x [1 ..< 18] of
        None \<Rightarrow> ''''
      | Some (k, n, s) \<Rightarrow> layout k n (digits s))"

fun number_to_string :: "jsnum \<Rightarrow> string" where
  "number_to_string NaN = ''NaN''"
| "number_to_string PosInfinity = ''Infinity''"
| "number_to_string NegInfinity = ''-Infinity''"
| "number_to_string (Finite x) =
     (if x = 0 then ''0''
      else if x < 0 then ''-'' @ positive_to_string (- x)
      else positive_to_string x)"

declare number_to_string.simps [simp del]

section \<open>JavaScript values\<close>

text \<open>
  The values that \<^verbatim>\<open>JSON.parse\<close> and the search client hand to the program, and
  \<^verbatim>\<open>undefined\<close>, which reading an absent property gives. The pairs of a \<open>JObject\<close> are
  the own properties of the object; a name is looked up from the front of the list.
  A string is a list of characters, and its \<^verbatim>\<open>length\<close> is their number (JavaScript
  counts UTF-16 code units, which is the same number for ASCII text).
\<close>

datatype jsval =
    JUndefined
  | JNull
  | JBoolean bool
  | JNumber jsnum
  | JString string
  | JArray "jsval list"
  | JObject "(string \<times> jsval) list"

datatype es_failure = NotFound | StoreUnavailable

text \<open>
  What the program can throw: a \<^verbatim>\<open>TypeError\<close> (a property of \<^verbatim>\<open>undefined\<close> or
  \<^verbatim>\<open>null\<close>, a value that cannot be converted or iterated), the \<^verbatim>\<open>SyntaxError\<close> of
  \<^verbatim>\<open>JSON.parse\<close>, the \<^verbatim>\<open>Error('non-OK return code from Slack')\<close> of the program
  itself, and the rejections of the two clients.
\<close>

datatype error =
    TypeError
  | SyntaxError
  | NonOkError
  | SlackError
  | EsError es_failure

definition and_then :: "error + 'a \<Rightarrow> ('a \<Rightarrow> error + 'b) \<Rightarrow> error + 'b" where
  "and_then r f = (case r of Inl e \<Rightarrow> Inl e | Inr v \<Rightarrow> f v)"

text \<open>
  Reading the property \<open>k\<close> of a value, \<^verbatim>\<open>v.k\<close>, for the names the program reads
  (\<^verbatim>\<open>_source\<close>, \<^verbatim>\<open>host\<close>, \<^verbatim>\<open>message\<close>, \<^verbatim>\<open>length\<close>, ...): of these only
  \<^verbatim>\<open>length\<close> is a property of strings and arrays, and none is inherited by an object.
\<close>

fun get :: "jsval \<Rightarrow> string \<Rightarrow> error + jsval" where
  "get JUndefined k = Inl TypeError"
| "get JNull k = Inl TypeError"
| "get (JObject ps) k = Inr (case map_of ps k of None \<Rightarrow> JUndefined | Some v \<Rightarrow> v)"
| "get (JString s) k =
     Inr (if k = ''length'' then JNumber (Finite (of_nat (length s))) else JUndefined)"
| "get (JArray xs) k =
     Inr (if k = ''length'' then JNumber (Finite (of_nat (length xs))) else JUndefined)"
| "get (JBoolean b) k = Inr JUndefined"
| "get (JNumber n) k = Inr JUndefined"

text \<open>A chain of property reads, \<^verbatim>\<open>v.k1.k2...\<close>.\<close>

fun path :: "jsval \<Rightarrow> string list \<Rightarrow> error + jsval" where
  "path v [] = Inr v"
| "path v (k # ks) = and_then (get v k) (\<lambda>w. path w ks)"

text \<open>
  \<^verbatim>\<open>ToString\<close>, which a template literal applies to each substitution. An array is
  joined with commas, \<^verbatim>\<open>undefined\<close> and \<^verbatim>\<open>null\<close> elements giving the empty string. An
  object prints as \<^verbatim>\<open>[object Object]\<close>, unless it has an own property \<^verbatim>\<open>toString\<close>:
  in parsed JSON that is never a function, and the conversion throws.
\<close>

fun to_string :: "jsval \<Rightarrow> error + string"
  and join_elements :: "jsval list \<Rightarrow> error + string" where
  "to_string JUndefined = Inr ''undefined''"
| "to_string JNull = Inr ''null''"
| "to_string (JBoolean b) = Inr (if b then ''true'' else ''false'')"
| "to_string (JNumber n) = Inr (number_to_string n)"
| "to_string (JString s) = Inr s"
| "to_string (JArray xs) = join_elements xs"
| "to_string (JObject ps) =
     (if ''toString'' \<in> set (map fst ps) then Inl TypeError else Inr ''[object Object]'')"
| "join_elements [] = Inr []"
| "join_elements (x # xs) =
     and_then (if x = JUndefined \<or> x = JNull then Inr [] else to_string x)
       (\<lambda>s. if xs = [] then Inr s
            else and_then (join_elements xs) (\<lambda>t. Inr (s @ '','' @ t)))"

text \<open>
  \<^verbatim>\<open>ToNumber\<close>, which \<^verbatim>\<open>*\<close> applies to its operands. The conversion of a string
  (\<^verbatim>\<open>StringToNumber\<close>) is a parameter \<open>s2n\<close>; an object without own \<^verbatim>\<open>toString\<close>
  converts through \<^verbatim>\<open>[object Object]\<close> to \<^verbatim>\<open>NaN\<close>.
\<close>

fun to_number :: "(string \<Rightarrow> jsnum) \<Rightarrow> jsval \<Rightarrow> error + jsnum" where
  "to_number s2n JUndefined = Inr NaN"
| "to_number s2n JNull = Inr (Finite 0)"
| "to_number s2n (JBoolean b) = Inr (Finite (if b then 1 else 0))"
| "to_number s2n (JNumber n) = Inr n"
| "to_number s2n (JString s) = Inr (s2n s)"
| "to_number s2n (JArray xs) = and_then (join_elements xs) (\<lambda>s. Inr (s2n s))"
| "to_number s2n (JObject ps) =
     (if ''toString'' \<in> set (map fst ps) then Inl TypeError else Inr NaN)"

definition times :: "(string \<Rightarrow> jsnum) \<Rightarrow> jsval \<Rightarrow> jsval \<Rightarrow> error + jsval" where
  "times s2n v w =
     and_then (to_number s2n v)
       (\<lambda>a. and_then (to_number s2n w) (\<lambda>b. Inr (JNumber (js_times a b))))"

text \<open>What \<^verbatim>\<open>for (const x of v)\<close> iterates over.\<close>

fun iterate :: "jsval \<Rightarrow> error + jsval list" where
  "iterate (JArray xs) = Inr xs"
| "iterate (JString s) = Inr (map (\<lambda>c. JString [c]) s)"
| "iterate v = Inl TypeError"

definition repeat :: "string \<Rightarrow> nat \<Rightarrow> string" where
  "repeat s n = concat (replicate n s)"

definition newline :: string where
  "newline = [CHR 0x0A]"

section \<open>The two clients and what the program does to them\<close>

text \<open>
  A hit of a search: \<^verbatim>\<open>hit._id\<close> and \<^verbatim>\<open>hit._source\<close>.
\<close>

record hit =
  hit_id :: string
  hit_source :: jsval

text \<open>
  \<^verbatim>\<open>postMessage\<close> resolves with \<^verbatim>\<open>{ok: true}\<close> or \<^verbatim>\<open>{ok: false}\<close>, or rejects
  (a transport error). A call of the search client resolves, or rejects with a failure.
\<close>

datatype slack_reply = Ok | NotOk | Rejected

text \<open>
  The program acts on the world only through these calls, so a run of one of its tasks is
  the list of the calls it made, each with its outcome, in the order they were made.
\<close>

datatype event =
    Search string
  | PostMessage string string slack_reply
  | Delete string string "es_failure option"
  | Index string jsval "es_failure option"
  | ConsoleLog string
  | ConsoleError error
  | SetTimeout nat

text \<open>
  The world outside the program: what each call returns, given the calls the task has
  made so far (this covers every behaviour of the stores and of the other tasks that run
  between two calls), and the two library functions that are not modelled,
  \<^verbatim>\<open>JSON.parse\<close> (\<open>None\<close> is its \<^verbatim>\<open>SyntaxError\<close>) and \<^verbatim>\<open>StringToNumber\<close>.
\<close>

record env =
  JSON_parse :: "string \<Rightarrow> jsval option"
  StringToNumber :: "string \<Rightarrow> jsnum"
  es_search :: "event list \<Rightarrow> string \<Rightarrow> es_failure + hit list"
  es_delete :: "event list \<Rightarrow> string \<Rightarrow> string \<Rightarrow> es_failure option"
  es_index :: "event list \<Rightarrow> string \<Rightarrow> jsval \<Rightarrow> es_failure option"
  slack_postMessage :: "event list \<Rightarrow> string \<Rightarrow> string \<Rightarrow> slack_reply"

text \<open>
  A task takes the calls made so far and returns the calls it makes and how it ends:
  \<open>None\<close> when it completes, \<open>Some e\<close> when \<open>e\<close> is thrown out of it.
\<close>

type_synonym task = "event list \<Rightarrow> event list \<times> error option"

definition unsentSlacksIndex :: string where
  "unsentSlacksIndex = ''unsent-slacks''"

definition slackChannel :: string where
  "slackChannel = ''#alerts-and-notifications''"

definition slackGracePeriod :: nat where
  "slackGracePeriod = 5000"

text \<open>\<^verbatim>\<open>console.log(`posted ${message.length} chars to Slack`)\<close>: the line it prints.\<close>

definition posted_line :: "jsval \<Rightarrow> error + string" where
  "posted_line message =
     and_then (get message ''length'')
       (\<lambda>l. and_then (to_string l) (\<lambda>n. Inr (''posted '' @ n @ '' chars to Slack'')))"

subsection \<open>The drainer of the unsent queue (lines 21 to 51)\<close>

definition found_line :: "hit \<Rightarrow> string" where
  "found_line h = ''Found unsent message '' @ hit_id h @ ''. Attempting to send''"

text \<open>The \<^verbatim>\<open>message\<close> and the \<^verbatim>\<open>text\<close> that the drainer builds for a hit.\<close>

definition unsent_text :: "hit \<Rightarrow> error + string \<times> string" where
  "unsent_text h =
     and_then (get (hit_source h) ''host'') (\<lambda>host.
     and_then (get (hit_source h) ''subject'') (\<lambda>subject.
     and_then (get (hit_source h) ''message'') (\<lambda>m.
     and_then (to_string m) (\<lambda>ms.
     and_then (to_string subject) (\<lambda>s.
     and_then (to_string host) (\<lambda>ho.
       let message = ''<< This message failed to send in a timely manner >>''
                       @ newline @ newline @ ms
       in Inr (message,
               repeat '':hourglass_flowing_sand: '' 4 @ newline @ ''*'' @ s @ ''*'' @ newline
                 @ ho @ newline @ newline @ message)))))))"

text \<open>The body of the loop over the hits of the unsent queue.\<close>

definition drain_hit :: "env \<Rightarrow> hit \<Rightarrow> task" where
  "drain_hit env h tr =
     (let found = [ConsoleLog (found_line h)] in
      case unsent_text h of
        Inl e \<Rightarrow> (found, Some e)
      | Inr (message, text) \<Rightarrow>
          (let reply = slack_postMessage env (tr @ found) slackChannel text;
               posted = found @ [PostMessage slackChannel text reply]
           in case reply of
                Rejected \<Rightarrow> (posted, Some SlackError)
              | NotOk \<Rightarrow> (posted, Some NonOkError)
              | Ok \<Rightarrow>
                  (case posted_line (JString message) of
                     Inl e \<Rightarrow> (posted, Some e)
                   | Inr line \<Rightarrow>
                       (let logged = posted @ [ConsoleLog line];
                            d = es_delete env (tr @ logged) unsentSlacksIndex (hit_id h);
                            deleted = logged @ [Delete unsentSlacksIndex (hit_id h) d]
                        in case d of
                             Some f \<Rightarrow> (deleted, Some (EsError f))
                           | None \<Rightarrow> (deleted @ [SetTimeout slackGracePeriod], None)))))"

text \<open>
  A \<^verbatim>\<open>for ... of\<close> loop whose body awaits: the bodies run one after the other, and
  the first one that throws ends the loop.
\<close>

fun for_each :: "('a \<Rightarrow> task) \<Rightarrow> 'a list \<Rightarrow> task" where
  "for_each body [] tr = ([], None)"
| "for_each body (x # xs) tr =
     (case body x tr of
        (evs, Some e) \<Rightarrow> (evs, Some e)
      | (evs, None) \<Rightarrow> (case for_each body xs (tr @ evs) of (evs', r) \<Rightarrow> (evs @ evs', r)))"

definition drainer :: "env \<Rightarrow> task" where
  "drainer env tr =
     (let searched = [Search unsentSlacksIndex] in
      case es_search env tr unsentSlacksIndex of
        Inl f \<Rightarrow> (searched, Some (EsError f))
      | Inr hits \<Rightarrow>
          (case for_each (drain_hit env) hits (tr @ searched) of
             (evs, r) \<Rightarrow> (searched @ evs, r)))"

subsection \<open>The alert types (lines 55 to 100)\<close>

record alertType =
  esIndex :: string
  getSubjectFunc :: "jsval \<Rightarrow> error + jsval"
  getMessageFunc :: "jsval \<Rightarrow> error + jsval"

text \<open>A template literal with one substitution, and with two.\<close>

definition template1 :: "string \<Rightarrow> error + jsval \<Rightarrow> string \<Rightarrow> error + jsval" where
  "template1 a v b = and_then v (\<lambda>x. and_then (to_string x) (\<lambda>s. Inr (JString (a @ s @ b))))"

definition template2 ::
  "error + jsval \<Rightarrow> string \<Rightarrow> error + jsval \<Rightarrow> error + jsval" where
  "template2 v b w =
     and_then v (\<lambda>x. and_then (to_string x) (\<lambda>s.
     and_then w (\<lambda>y. and_then (to_string y) (\<lambda>t. Inr (JString (s @ b @ t))))))"

definition percent :: "(string \<Rightarrow> jsnum) \<Rightarrow> error + jsval \<Rightarrow> error + jsval" where
  "percent s2n v =
     template1 [] (and_then v (\<lambda>x. times s2n x (JNumber (Finite 100)))) ''%''"

definition log_errors :: alertType where
  "log_errors =
     \<lparr> esIndex = ''alerts-log-errors'',
       getSubjectFunc = (\<lambda>alert. path alert [''_source'', ''log'', ''file'', ''path'']),
       getMessageFunc = (\<lambda>alert. path alert [''_source'', ''message'']) \<rparr>"

definition disk_space :: "(string \<Rightarrow> jsnum) \<Rightarrow> alertType" where
  "disk_space s2n =
     \<lparr> esIndex = ''alerts-disk-space'',
       getSubjectFunc = (\<lambda>alert.
         template1 ''High disk usage on ''
           (path alert [''_source'', ''system'', ''filesystem'', ''mount_point'']) []),
       getMessageFunc = (\<lambda>alert.
         percent s2n (path alert [''_source'', ''system'', ''filesystem'', ''used'', ''pct''])) \<rparr>"

definition memory_usage :: "(string \<Rightarrow> jsnum) \<Rightarrow> alertType" where
  "memory_usage s2n =
     \<lparr> esIndex = ''alerts-memory-usage'',
       getSubjectFunc = (\<lambda>alert. Inr (JString ''High memory usage'')),
       getMessageFunc = (\<lambda>alert.
         percent s2n
           (path alert [''_source'', ''system'', ''memory'', ''actual'', ''used'', ''pct''])) \<rparr>"

definition systemd :: alertType where
  "systemd =
     \<lparr> esIndex = ''alerts-systemd'',
       getSubjectFunc = (\<lambda>alert. Inr (JString ''Down systemd service'')),
       getMessageFunc = (\<lambda>alert.
         template2 (path alert [''_source'', ''system'', ''service'', ''name'']) '' is ''
           (path alert [''_source'', ''system'', ''service'', ''state''])) \<rparr>"

definition docker_unhealthy_container :: alertType where
  "docker_unhealthy_container =
     \<lparr> esIndex = ''alerts-docker-unhealthy-container'',
       getSubjectFunc = (\<lambda>alert. Inr (JString ''Unhealthy docker container'')),
       getMessageFunc = (\<lambda>alert.
         template2 (path alert [''_source'', ''container'', ''name'']) '' is ''
           (path alert [''_source'', ''docker'', ''container'', ''status''])) \<rparr>"

definition alertTypes :: "(string \<Rightarrow> jsnum) \<Rightarrow> alertType list" where
  "alertTypes s2n =
     [log_errors, disk_space s2n, memory_usage s2n, systemd, docker_unhealthy_container]"

subsection \<open>The dispatcher of one alert type (lines 101 to 145)\<close>

text \<open>The \<^verbatim>\<open>text\<close> posted for a sub-alert.\<close>

definition alert_text :: "jsval \<Rightarrow> jsval \<Rightarrow> jsval \<Rightarrow> error + string" where
  "alert_text subject host message =
     and_then (to_string subject) (\<lambda>s.
     and_then (to_string host) (\<lambda>ho.
     and_then (to_string message) (\<lambda>m.
       Inr (repeat '':anger: '' 4 @ newline @ ''*'' @ s @ ''*'' @ newline
              @ ho @ newline @ newline @ m))))"

text \<open>
  The \<^verbatim>\<open>try\<close> block (lines 114 to 127): the calls it makes, and what is thrown inside
  it, if anything.
\<close>

definition try_send :: "env \<Rightarrow> jsval \<Rightarrow> jsval \<Rightarrow> jsval \<Rightarrow> task" where
  "try_send env host subject message tr =
     (case alert_text subject host message of
        Inl e \<Rightarrow> ([], Some e)
      | Inr text \<Rightarrow>
          (let reply = slack_postMessage env tr slackChannel text;
               posted = [PostMessage slackChannel text reply]
           in case reply of
                Rejected \<Rightarrow> (posted, Some SlackError)
              | NotOk \<Rightarrow> (posted, Some NonOkError)
              | Ok \<Rightarrow>
                  (case posted_line message of
                     Inl e \<Rightarrow> (posted, Some e)
                   | Inr line \<Rightarrow>
                       (posted @ [ConsoleLog line, SetTimeout slackGracePeriod], None))))"

text \<open>The document that the \<^verbatim>\<open>catch\<close> block stores in the unsent queue.\<close>

definition unsent_body :: "jsval \<Rightarrow> jsval \<Rightarrow> jsval \<Rightarrow> jsval" where
  "unsent_body host subject message =
     JObject [(''host'', host), (''subject'', subject), (''message'', message)]"

text \<open>The \<^verbatim>\<open>catch\<close> block (lines 127 to 137), entered with the error \<open>err\<close>.\<close>

definition requeue :: "env \<Rightarrow> error \<Rightarrow> jsval \<Rightarrow> jsval \<Rightarrow> jsval \<Rightarrow> task" where
  "requeue env err host subject message tr =
     (let logged = [ConsoleError err];
          body = unsent_body host subject message;
          r = es_index env (tr @ logged) unsentSlacksIndex body
      in (logged @ [Index unsentSlacksIndex body r], map_option EsError r))"

text \<open>The body of the loop over the sub-alerts of a record (lines 111 to 137).\<close>

definition send_alert :: "env \<Rightarrow> alertType \<Rightarrow> jsval \<Rightarrow> task" where
  "send_alert env alertType alert tr =
     (case path alert [''_source'', ''host''] of
        Inl e \<Rightarrow> ([], Some e)
      | Inr host \<Rightarrow>
     (case getSubjectFunc alertType alert of
        Inl e \<Rightarrow> ([], Some e)
      | Inr subject \<Rightarrow>
     (case getMessageFunc alertType alert of
        Inl e \<Rightarrow> ([], Some e)
      | Inr message \<Rightarrow>
     (case try_send env host subject message tr of
        (evs, None) \<Rightarrow> (evs, None)
      | (evs, Some err) \<Rightarrow>
          (case requeue env err host subject message (tr @ evs) of
             (evs', r) \<Rightarrow> (evs @ evs', r))))))"

text \<open>
  \<^verbatim>\<open>JSON.parse(hit._source.alertContexts)\<close> and the values the loop iterates over.
  \<^verbatim>\<open>JSON.parse\<close> converts its argument to a string first; an absent field converts to
  \<^verbatim>\<open>undefined\<close>, which is not JSON.
\<close>

definition alert_contexts :: "env \<Rightarrow> hit \<Rightarrow> error + jsval list" where
  "alert_contexts env h =
     and_then (get (hit_source h) ''alertContexts'') (\<lambda>v.
     and_then (if v = JUndefined then Inl SyntaxError else to_string v) (\<lambda>s.
     and_then (case JSON_parse env s of None \<Rightarrow> Inl SyntaxError | Some w \<Rightarrow> Inr w)
       iterate))"

text \<open>The body of the loop over the hits (lines 109 to 143).\<close>

definition dispatch_hit :: "env \<Rightarrow> alertType \<Rightarrow> hit \<Rightarrow> task" where
  "dispatch_hit env alertType h tr =
     (case alert_contexts env h of
        Inl e \<Rightarrow> ([], Some e)
      | Inr alerts \<Rightarrow>
          (case for_each (send_alert env alertType) alerts tr of
             (evs, Some e) \<Rightarrow> (evs, Some e)
           | (evs, None) \<Rightarrow>
               (let d = es_delete env (tr @ evs) (esIndex alertType) (hit_id h)
                in (evs @ [Delete (esIndex alertType) (hit_id h) d], map_option EsError d))))"

definition dispatcher :: "env \<Rightarrow> alertType \<Rightarrow> task" where
  "dispatcher env alertType tr =
     (let searched = [Search (esIndex alertType)] in
      case es_search env tr (esIndex alertType) of
        Inl f \<Rightarrow> (searched, Some (EsError f))
      | Inr hits \<Rightarrow>
          (case for_each (dispatch_hit env alertType) hits (tr @ searched) of
             (evs, r) \<Rightarrow> (searched @ evs, r)))"

text \<open>
  The tasks that the program starts: the drainer and one dispatcher for each alert type.
  They interleave at their calls; each is modelled on its own.
\<close>

definition tasks :: "env \<Rightarrow> task list" where
  "tasks env = drainer env # map (dispatcher env) (alertTypes (StringToNumber env))"

section \<open>Example worlds and documents\<close>

text \<open>
  A world in which every call succeeds, the searches find nothing and no text parses; the
  examples below change one answer or another of it.
\<close>

definition calm :: env where
  "calm =
     \<lparr> JSON_parse = (\<lambda>s. None),
       StringToNumber = (\<lambda>s. NaN),
       es_search = (\<lambda>tr i. Inr []),
       es_delete = (\<lambda>tr i k. None),
       es_index = (\<lambda>tr i b. None),
       slack_postMessage = (\<lambda>tr c t. Ok) \<rparr>"

text \<open>Two entries of the unsent queue, and the texts the drainer posts for them.\<close>

definition unsent_nginx :: hit where
  "unsent_nginx =
     \<lparr> hit_id = ''u1'',
       hit_source = JObject [(''host'', JString ''web1''),
                             (''subject'', JString ''Down systemd service''),
                             (''message'', JString ''nginx is failed'')] \<rparr>"

definition unsent_disk :: hit where
  "unsent_disk =
     \<lparr> hit_id = ''u2'',
       hit_source = JObject [(''host'', JString ''db1''),
                             (''subject'', JString ''High disk usage on /data''),
                             (''message'', JString ''92%'')] \<rparr>"

definition hourglasses :: string where
  "hourglasses =
     '':hourglass_flowing_sand: :hourglass_flowing_sand: :hourglass_flowing_sand: :hourglass_flowing_sand: ''"

definition late_nginx :: string where
  "late_nginx =
     ''<< This message failed to send in a timely manner >>'' @ newline @ newline
       @ ''nginx is failed''"

definition late_disk :: string where
  "late_disk =
     ''<< This message failed to send in a timely manner >>'' @ newline @ newline @ ''92%''"

definition nginx_retry_text :: string where
  "nginx_retry_text =
     hourglasses @ newline @ ''*Down systemd service*'' @ newline @ ''web1'' @ newline @ newline
       @ late_nginx"

definition disk_retry_text :: string where
  "disk_retry_text =
     hourglasses @ newline @ ''*High disk usage on /data*'' @ newline @ ''db1'' @ newline
       @ newline @ late_disk"

text \<open>The unsent queue holds the two entries; the first send succeeds, later ones do not.\<close>

definition second_send_rejected :: env where
  "second_send_rejected =
     calm \<lparr> es_search := (\<lambda>tr i. Inr [unsent_nginx, unsent_disk]),
            slack_postMessage := (\<lambda>tr c t. if length tr < 3 then Ok else Rejected) \<rparr>"

text \<open>The unsent queue holds the two entries and every call succeeds.\<close>

definition two_unsent :: env where
  "two_unsent = calm \<lparr> es_search := (\<lambda>tr i. Inr [unsent_nginx, unsent_disk]) \<rparr>"

text \<open>
  Two records of an alert index. The stored text of one does not parse, the other has no
  \<^verbatim>\<open>alertContexts\<close> at all. The search returns them in one order or the other.
\<close>

definition corrupt_record :: hit where
  "corrupt_record =
     \<lparr> hit_id = ''r1'', hit_source = JObject [(''alertContexts'', JString ''[{'')] \<rparr>"

definition bare_record :: hit where
  "bare_record = \<lparr> hit_id = ''r2'', hit_source = JObject [] \<rparr>"

definition corrupt_first :: env where
  "corrupt_first = calm \<lparr> es_search := (\<lambda>tr i. Inr [corrupt_record, bare_record]) \<rparr>"

definition missing_first :: env where
  "missing_first = calm \<lparr> es_search := (\<lambda>tr i. Inr [bare_record, corrupt_record]) \<rparr>"

text \<open>
  Two records whose sub-alert lists are empty, in a world where the first record has been
  removed by someone else before the dispatcher deletes it.
\<close>

definition empty_record :: "string \<Rightarrow> hit" where
  "empty_record k = \<lparr> hit_id = k, hit_source = JObject [(''alertContexts'', JString ''[]'')] \<rparr>"

definition already_removed :: env where
  "already_removed =
     calm \<lparr> JSON_parse := (\<lambda>s. if s = ''[]'' then Some (JArray []) else None),
            es_search := (\<lambda>tr i. Inr [empty_record ''r1'', empty_record ''r2'']),
            es_delete := (\<lambda>tr i k. if k = ''r1'' then Some NotFound else None) \<rparr>"

text \<open>The unsent queue holds the two entries, every send succeeds, the store is down.\<close>

definition store_down_on_delete :: env where
  "store_down_on_delete = two_unsent \<lparr> es_delete := (\<lambda>tr i k. Some StoreUnavailable) \<rparr>"

text \<open>
  Two sub-alerts, a down service and an unhealthy container, the texts the dispatcher posts
  for them, and a record of an alert index. The text stored in the record is opaque here:
  the \<open>JSON_parse\<close> of each example world says what it decodes to.
\<close>

definition nginx_down :: jsval where
  "nginx_down =
     JObject [(''_source'', JObject
       [(''host'', JString ''web1''),
        (''system'', JObject
           [(''service'', JObject [(''name'', JString ''nginx''),
                                   (''state'', JString ''failed'')])])])]"

definition redis_unhealthy :: jsval where
  "redis_unhealthy =
     JObject [(''_source'', JObject
       [(''host'', JString ''db1''),
        (''container'', JObject [(''name'', JString ''redis'')]),
        (''docker'', JObject
           [(''container'', JObject [(''status'', JString ''Up 2 hours (unhealthy)'')])])])]"

definition anger :: string where
  "anger = '':anger: :anger: :anger: :anger: ''"

definition nginx_text :: string where
  "nginx_text =
     anger @ newline @ ''*Down systemd service*'' @ newline @ ''web1'' @ newline @ newline
       @ ''nginx is failed''"

definition redis_text :: string where
  "redis_text =
     anger @ newline @ ''*Unhealthy docker container*'' @ newline @ ''db1'' @ newline @ newline
       @ ''redis is Up 2 hours (unhealthy)''"

definition nginx_unsent :: jsval where
  "nginx_unsent =
     JObject [(''host'', JString ''web1''),
              (''subject'', JString ''Down systemd service''),
              (''message'', JString ''nginx is failed'')]"

definition alert_record :: "string \<Rightarrow> hit" where
  "alert_record k =
     \<lparr> hit_id = k, hit_source = JObject [(''alertContexts'', JString ''[...]'')] \<rparr>"

text \<open>One record with the down service twice; Slack answers the first send with
  \<^verbatim>\<open>{ok: false}\<close> and is unreachable for the second.\<close>

definition slack_fails_twice :: env where
  "slack_fails_twice =
     calm \<lparr> JSON_parse := (\<lambda>s. Some (JArray [nginx_down, nginx_down])),
            es_search := (\<lambda>tr i. Inr [alert_record ''r1'']),
            slack_postMessage := (\<lambda>tr c t. if tr = [] then NotOk else Rejected) \<rparr>"

text \<open>One record with the unhealthy container; Slack is unreachable.\<close>

definition slack_unreachable :: env where
  "slack_unreachable =
     calm \<lparr> JSON_parse := (\<lambda>s. Some (JArray [redis_unhealthy])),
            es_search := (\<lambda>tr i. Inr [alert_record ''r1'']),
            slack_postMessage := (\<lambda>tr c t. Rejected) \<rparr>"

text \<open>Two records with the down service; Slack answers \<^verbatim>\<open>{ok: false}\<close> and the store
  refuses every insert.\<close>

definition insert_refused :: env where
  "insert_refused =
     calm \<lparr> JSON_parse := (\<lambda>s. Some (JArray [nginx_down])),
            es_search := (\<lambda>tr i. Inr [alert_record ''r1'', alert_record ''r2'']),
            es_index := (\<lambda>tr i b. Some StoreUnavailable),
            slack_postMessage := (\<lambda>tr c t. NotOk) \<rparr>"

text \<open>
  A sub-alert of each remaining type. The fractions are the Numbers that \<^verbatim>\<open>JSON.parse\<close>
  reads from the literals \<^verbatim>\<open>0.92\<close> and \<^verbatim>\<open>0.5\<close>.
\<close>

definition disk_full :: jsval where
  "disk_full =
     JObject [(''_source'', JObject
       [(''host'', JString ''db1''),
        (''system'', JObject
           [(''filesystem'', JObject
              [(''mount_point'', JString ''/data''),
               (''used'', JObject [(''pct'', JNumber (round_to_double (92 / 100)))])])])])]"

definition memory_high :: jsval where
  "memory_high =
     JObject [(''_source'', JObject
       [(''host'', JString ''db1''),
        (''system'', JObject
           [(''memory'', JObject
              [(''actual'', JObject
                 [(''used'', JObject [(''pct'', JNumber (round_to_double (5 / 10)))])])])])])]"

definition io_error :: jsval where
  "io_error =
     JObject [(''_source'', JObject
       [(''host'', JString ''web1''),
        (''log'', JObject [(''file'', JObject [(''path'', JString ''/var/log/syslog'')])]),
        (''message'', JString ''I/O error, dev sda, sector 2048'')])]"

section \<open>The calls made for one sub-alert\<close>

text \<open>
  The two ways in which the dispatcher can deal with a sub-alert: it is delivered (the
  send is answered ok, the line is logged, the grace period is waited), or it is stored
  in the unsent queue (after a send that failed, or after no send at all when the text
  could not be built, the error is logged and the insert succeeds).
\<close>

fun delivered_once :: "event list \<Rightarrow> bool" where
  "delivered_once [PostMessage c t Ok, ConsoleLog l, SetTimeout n] = True"
| "delivered_once evs = False"

fun requeued_once :: "event list \<Rightarrow> bool" where
  "requeued_once [PostMessage c t r, ConsoleError e, Index i b None]
     = (r \<noteq> Ok \<and> i = unsentSlacksIndex)"
| "requeued_once [ConsoleError e, Index i b None] = (i = unsentSlacksIndex)"
| "requeued_once evs = False"

text \<open>
  A log error without a \<^verbatim>\<open>message\<close> field, the text posted for it, and a world with
  one record that holds it, where every call succeeds.
\<close>

definition silent_error :: jsval where
  "silent_error =
     JObject [(''_source'', JObject
       [(''host'', JString ''web1''),
        (''log'', JObject [(''file'', JObject [(''path'', JString ''/var/log/syslog'')])])])]"

definition silent_error_text :: string where
  "silent_error_text =
     anger @ newline @ ''*/var/log/syslog*'' @ newline @ ''web1'' @ newline @ newline
       @ ''undefined''"

definition message_missing :: env where
  "message_missing =
     calm \<lparr> JSON_parse := (\<lambda>s. Some (JArray [silent_error])),
            es_search := (\<lambda>tr i. Inr [alert_record ''r1'']) \<rparr>"

text \<open>A record whose sub-alert list is empty, in a world where every call succeeds.\<close>

definition nothing_to_send :: env where
  "nothing_to_send =
     calm \<lparr> JSON_parse := (\<lambda>s. Some (JArray [])),
            es_search := (\<lambda>tr i. Inr [alert_record ''r1'']) \<rparr>"

section \<open>Evaluating Numbers\<close>

lemma floor_rat_numeral: "\<lfloor>numeral a / numeral b :: rat\<rfloor> = numeral a div numeral b"
  using floor_divide_of_int_eq [of "numeral a" "numeral b", where ?'a = rat] by simp

lemma ceiling_rat_numeral:
  "\<lceil>numeral a / numeral b :: rat\<rceil> = - (- numeral a div numeral b)"
  using floor_divide_of_int_eq [of "- numeral a" "numeral b", where ?'a = rat]
  by (simp add: ceiling_def)

lemmas list_eval = positive_to_string_def upt_rec candidates_def floor_log10_def
  decimal_length.simps floor_rat_numeral ceiling_rat_numeral pow_int_def number_to_string.simps

lemmas round_eval = bit_length.simps floor_rat_numeral ceiling_rat_numeral pow_int_def
  round_half_even_def layout_def digits.simps

lemma number_to_string_69: "number_to_string (Finite 69) = ''69''"
  apply (simp add: list_eval)
  apply (unfold round_to_double_def Let_def floor_log2_def)
  apply (simp add: round_eval)
  done

lemma number_to_string_57: "number_to_string (Finite 57) = ''57''"
  apply (simp add: list_eval)
  apply (unfold round_to_double_def Let_def floor_log2_def)
  apply (simp add: round_eval)
  done

section \<open>Loops and single steps\<close>

lemma for_each_append:
  "for_each body (xs @ ys) tr =
     (case for_each body xs tr of
        (evs, Some e) \<Rightarrow> (evs, Some e)
      | (evs, None) \<Rightarrow> (case for_each body ys (tr @ evs) of (evs', r) \<Rightarrow> (evs @ evs', r)))"
  by (induction xs arbitrary: tr) (auto split: prod.splits option.splits)

lemma posted_line_string:
  "posted_line (JString m) =
     Inr (''posted '' @ number_to_string (Finite (of_nat (length m))) @ '' chars to Slack'')"
  by (simp add: posted_line_def and_then_def)

lemma drain_hit_failed:
  assumes "unsent_text h = Inr (message, text)"
    and "slack_postMessage env (tr @ [ConsoleLog (found_line h)]) slackChannel text = reply"
    and "reply \<noteq> Ok"
  shows "drain_hit env h tr =
           ([ConsoleLog (found_line h), PostMessage slackChannel text reply],
            Some (if reply = NotOk then NonOkError else SlackError))"
  using assms by (cases reply) (simp_all add: drain_hit_def)

lemma drain_hit_ok:
  assumes "unsent_text h = Inr (message, text)"
    and "slack_postMessage env (tr @ [ConsoleLog (found_line h)]) slackChannel text = Ok"
  shows "drain_hit env h tr =
     (let line = ''posted '' @ number_to_string (Finite (of_nat (length message)))
                   @ '' chars to Slack'';
          pre = [ConsoleLog (found_line h), PostMessage slackChannel text Ok, ConsoleLog line];
          d = es_delete env (tr @ pre) unsentSlacksIndex (hit_id h)
      in case d of
           Some f \<Rightarrow> (pre @ [Delete unsentSlacksIndex (hit_id h) (Some f)], Some (EsError f))
         | None \<Rightarrow> (pre @ [Delete unsentSlacksIndex (hit_id h) None, SetTimeout 5000], None))"
  using assms
  by (simp add: drain_hit_def posted_line_string slackGracePeriod_def Let_def
      split: option.splits)

lemma unsent_text_nginx: "unsent_text unsent_nginx = Inr (late_nginx, nginx_retry_text)"
  by (simp add: unsent_text_def unsent_nginx_def and_then_def late_nginx_def nginx_retry_text_def
      hourglasses_def repeat_def numeral_eq_Suc Let_def)

lemma unsent_text_disk: "unsent_text unsent_disk = Inr (late_disk, disk_retry_text)"
  by (simp add: unsent_text_def unsent_disk_def and_then_def late_disk_def disk_retry_text_def
      hourglasses_def repeat_def numeral_eq_Suc Let_def)

lemma length_late_nginx: "length late_nginx = 69"
  by (simp add: late_nginx_def newline_def)

lemma length_late_disk: "length late_disk = 57"
  by (simp add: late_disk_def newline_def)

lemma drain_nginx_ok:
  assumes "slack_postMessage env (tr @ [ConsoleLog (found_line unsent_nginx)]) slackChannel
             nginx_retry_text = Ok"
    and "es_delete env
           (tr @ [ConsoleLog (found_line unsent_nginx),
                  PostMessage slackChannel nginx_retry_text Ok,
                  ConsoleLog ''posted 69 chars to Slack''])
           unsentSlacksIndex ''u1'' = None"
  shows "drain_hit env unsent_nginx tr =
     ([ConsoleLog (found_line unsent_nginx), PostMessage slackChannel nginx_retry_text Ok,
       ConsoleLog ''posted 69 chars to Slack'',
       Delete unsentSlacksIndex ''u1'' None, SetTimeout 5000], None)"
  using drain_hit_ok [OF unsent_text_nginx, of env tr] assms
  by (simp add: length_late_nginx number_to_string_69 Let_def) (simp add: unsent_nginx_def)

section \<open>The drainer\<close>

text \<open>
  C5. When the send for an entry of the unsent queue fails, because \<^verbatim>\<open>postMessage\<close>
  rejects or because it answers \<^verbatim>\<open>{ok: false}\<close>, the drainer ends with an error there:
  the failed send is its last call, so it deletes neither this entry nor a later one and
  sends nothing more.
\<close>

theorem drainer_stops_on_failed_send:
  assumes "es_search env tr unsentSlacksIndex = Inr (before @ h # later)"
    and "for_each (drain_hit env) before (tr @ [Search unsentSlacksIndex]) = (evs, None)"
    and "unsent_text h = Inr (message, text)"
    and "slack_postMessage env (tr @ Search unsentSlacksIndex # evs @ [ConsoleLog (found_line h)])
           slackChannel text = reply"
    and "reply \<noteq> Ok"
  shows "drainer env tr =
           (Search unsentSlacksIndex # evs
              @ [ConsoleLog (found_line h), PostMessage slackChannel text reply],
            Some (if reply = NotOk then NonOkError else SlackError))"
proof -
  have "drain_hit env h (tr @ Search unsentSlacksIndex # evs) =
          ([ConsoleLog (found_line h), PostMessage slackChannel text reply],
           Some (if reply = NotOk then NonOkError else SlackError))"
    using assms(3-5) by (intro drain_hit_failed) simp_all
  then show ?thesis
    using assms(1,2) by (simp add: drainer_def for_each_append)
qed

theorem drainer_stops_on_failed_send_witness:
  "drainer second_send_rejected [] =
     ([Search unsentSlacksIndex,
       ConsoleLog (found_line unsent_nginx),
       PostMessage slackChannel nginx_retry_text Ok,
       ConsoleLog ''posted 69 chars to Slack'',
       Delete unsentSlacksIndex ''u1'' None,
       SetTimeout 5000,
       ConsoleLog (found_line unsent_disk),
       PostMessage slackChannel disk_retry_text Rejected],
      Some SlackError)"
proof -
  have 1: "es_search second_send_rejected [] unsentSlacksIndex
             = Inr ([unsent_nginx] @ unsent_disk # [])"
    by (simp add: second_send_rejected_def calm_def)
  have 2: "for_each (drain_hit second_send_rejected) [unsent_nginx]
             ([] @ [Search unsentSlacksIndex]) =
     ([ConsoleLog (found_line unsent_nginx), PostMessage slackChannel nginx_retry_text Ok,
       ConsoleLog ''posted 69 chars to Slack'',
       Delete unsentSlacksIndex ''u1'' None, SetTimeout 5000], None)"
    by (simp add: drain_nginx_ok second_send_rejected_def calm_def)
  have 3: "slack_postMessage second_send_rejected
             ([] @ Search unsentSlacksIndex #
               [ConsoleLog (found_line unsent_nginx), PostMessage slackChannel nginx_retry_text Ok,
                ConsoleLog ''posted 69 chars to Slack'',
                Delete unsentSlacksIndex ''u1'' None, SetTimeout 5000]
               @ [ConsoleLog (found_line unsent_disk)])
             slackChannel disk_retry_text = Rejected"
    by (simp add: second_send_rejected_def calm_def)
  show ?thesis
    using drainer_stops_on_failed_send [OF 1 2 unsent_text_disk 3] by simp
qed

lemma drain_disk_ok:
  assumes "slack_postMessage env (tr @ [ConsoleLog (found_line unsent_disk)]) slackChannel
             disk_retry_text = Ok"
    and "es_delete env
           (tr @ [ConsoleLog (found_line unsent_disk),
                  PostMessage slackChannel disk_retry_text Ok,
                  ConsoleLog ''posted 57 chars to Slack''])
           unsentSlacksIndex ''u2'' = None"
  shows "drain_hit env unsent_disk tr =
     ([ConsoleLog (found_line unsent_disk), PostMessage slackChannel disk_retry_text Ok,
       ConsoleLog ''posted 57 chars to Slack'',
       Delete unsentSlacksIndex ''u2'' None, SetTimeout 5000], None)"
  using drain_hit_ok [OF unsent_text_disk, of env tr] assms
  by (simp add: length_late_disk number_to_string_57 Let_def) (simp add: unsent_disk_def)

text \<open>
  C6. For an entry of the unsent queue whose send is acknowledged, the drainer's calls are,
  in this order: the send, answered ok; the delete of the entry from the unsent queue; when
  the delete succeeded, a wait of the grace period, 5000 ms; and only then the calls for
  the entries that follow. (When the delete fails the task ends there.)
\<close>

theorem drainer_delivery_order:
  assumes "es_search env tr unsentSlacksIndex = Inr (before @ h # later)"
    and "for_each (drain_hit env) before (tr @ [Search unsentSlacksIndex]) = (evs, None)"
    and "unsent_text h = Inr (message, text)"
    and "slack_postMessage env (tr @ Search unsentSlacksIndex # evs @ [ConsoleLog (found_line h)])
           slackChannel text = Ok"
    and "pre = Search unsentSlacksIndex # evs
                 @ [ConsoleLog (found_line h), PostMessage slackChannel text Ok,
                    ConsoleLog (''posted '' @ number_to_string (Finite (of_nat (length message)))
                                  @ '' chars to Slack'')]"
    and "es_delete env (tr @ pre) unsentSlacksIndex (hit_id h) = d"
    and "for_each (drain_hit env) later
           (tr @ pre @ [Delete unsentSlacksIndex (hit_id h) None, SetTimeout 5000]) = (rest, r)"
  shows "slackGracePeriod = 5000
       \<and> drainer env tr =
           (case d of
              None \<Rightarrow>
                (pre @ [Delete unsentSlacksIndex (hit_id h) None, SetTimeout slackGracePeriod]
                   @ rest, r)
            | Some f \<Rightarrow>
                (pre @ [Delete unsentSlacksIndex (hit_id h) (Some f)], Some (EsError f)))"
proof -
  have "slack_postMessage env ((tr @ Search unsentSlacksIndex # evs) @ [ConsoleLog (found_line h)])
          slackChannel text = Ok"
    using assms(4) by simp
  note step = drain_hit_ok [OF assms(3) this]
  show ?thesis
    using assms(1,2,5,6,7)
    by (simp add: drainer_def for_each_append step Let_def slackGracePeriod_def
        split: option.splits prod.splits)
qed

theorem drainer_delivery_order_witness:
  "drainer two_unsent [] =
     ([Search unsentSlacksIndex,
       ConsoleLog (found_line unsent_nginx),
       PostMessage slackChannel nginx_retry_text Ok,
       ConsoleLog ''posted 69 chars to Slack'',
       Delete unsentSlacksIndex ''u1'' None,
       SetTimeout 5000,
       ConsoleLog (found_line unsent_disk),
       PostMessage slackChannel disk_retry_text Ok,
       ConsoleLog ''posted 57 chars to Slack'',
       Delete unsentSlacksIndex ''u2'' None,
       SetTimeout 5000],
      None)"
proof -
  let ?pre = "[Search unsentSlacksIndex,
       ConsoleLog (found_line unsent_nginx),
       PostMessage slackChannel nginx_retry_text Ok,
       ConsoleLog ''posted 69 chars to Slack'']"
  have 1: "es_search two_unsent [] unsentSlacksIndex = Inr ([] @ unsent_nginx # [unsent_disk])"
    by (simp add: two_unsent_def calm_def)
  have 2: "for_each (drain_hit two_unsent) [] ([] @ [Search unsentSlacksIndex]) = ([], None)"
    by simp
  have 3: "slack_postMessage two_unsent
             ([] @ Search unsentSlacksIndex # [] @ [ConsoleLog (found_line unsent_nginx)])
             slackChannel nginx_retry_text = Ok"
    by (simp add: two_unsent_def calm_def)
  have 4: "?pre = Search unsentSlacksIndex # []
                 @ [ConsoleLog (found_line unsent_nginx),
                    PostMessage slackChannel nginx_retry_text Ok,
                    ConsoleLog (''posted '' @ number_to_string (Finite (of_nat (length late_nginx)))
                                  @ '' chars to Slack'')]"
    by (simp add: length_late_nginx number_to_string_69)
  have 5: "es_delete two_unsent ([] @ ?pre) unsentSlacksIndex (hit_id unsent_nginx) = None"
    by (simp add: two_unsent_def calm_def)
  have 6: "for_each (drain_hit two_unsent) [unsent_disk]
             ([] @ ?pre @ [Delete unsentSlacksIndex (hit_id unsent_nginx) None, SetTimeout 5000])
           = ([ConsoleLog (found_line unsent_disk), PostMessage slackChannel disk_retry_text Ok,
               ConsoleLog ''posted 57 chars to Slack'',
               Delete unsentSlacksIndex ''u2'' None, SetTimeout 5000], None)"
    by (simp add: drain_disk_ok two_unsent_def calm_def)
  show ?thesis
    using drainer_delivery_order [OF 1 2 unsent_text_nginx 3 4 5 6]
    by (simp add: unsent_nginx_def)
qed

section \<open>The dispatcher\<close>

text \<open>
  C9. When the sub-alert list of a record cannot be decoded, the error is thrown out of the
  dispatcher at that record: the task ends without one call for it, so none of its
  sub-alerts is sent or stored in the unsent queue and the record is not deleted. A stored
  text that \<^verbatim>\<open>JSON.parse\<close> rejects and an absent \<^verbatim>\<open>alertContexts\<close> both fail to
  decode.
\<close>

theorem decode_failure_is_fatal:
  assumes "es_search env tr (esIndex alertType) = Inr (before @ h # later)"
    and "for_each (dispatch_hit env alertType) before (tr @ [Search (esIndex alertType)])
           = (evs, None)"
  shows "(alert_contexts env h = Inl e \<longrightarrow>
            dispatcher env alertType tr = (Search (esIndex alertType) # evs, Some e))
       \<and> (get (hit_source h) ''alertContexts'' = Inr JUndefined \<longrightarrow>
            alert_contexts env h = Inl SyntaxError)
       \<and> (get (hit_source h) ''alertContexts'' = Inr (JString s) \<longrightarrow>
            JSON_parse env s = None \<longrightarrow>
            alert_contexts env h = Inl SyntaxError)"
  using assms
  by (simp add: dispatcher_def for_each_append dispatch_hit_def alert_contexts_def and_then_def)

theorem decode_failure_is_fatal_witness:
  "dispatcher corrupt_first systemd [] = ([Search ''alerts-systemd''], Some SyntaxError)
 \<and> dispatcher missing_first systemd [] = ([Search ''alerts-systemd''], Some SyntaxError)"
proof -
  have 1: "es_search corrupt_first [] (esIndex systemd) = Inr ([] @ corrupt_record # [bare_record])"
    by (simp add: corrupt_first_def calm_def)
  have 2: "for_each (dispatch_hit corrupt_first systemd) [] ([] @ [Search (esIndex systemd)])
             = ([], None)"
    by simp
  have 3: "get (hit_source corrupt_record) ''alertContexts'' = Inr (JString ''[{'')"
    by (simp add: corrupt_record_def)
  have 4: "JSON_parse corrupt_first ''[{'' = None"
    by (simp add: corrupt_first_def calm_def)
  have 5: "es_search missing_first [] (esIndex systemd) = Inr ([] @ bare_record # [corrupt_record])"
    by (simp add: missing_first_def calm_def)
  have 6: "for_each (dispatch_hit missing_first systemd) [] ([] @ [Search (esIndex systemd)])
             = ([], None)"
    by simp
  have 7: "get (hit_source bare_record) ''alertContexts'' = Inr JUndefined"
    by (simp add: bare_record_def)
  have "dispatcher corrupt_first systemd [] = ([Search ''alerts-systemd''], Some SyntaxError)"
    using decode_failure_is_fatal [OF 1 2, of SyntaxError "''[{''"] 3 4
    by (simp add: systemd_def)
  moreover
  have "dispatcher missing_first systemd [] = ([Search ''alerts-systemd''], Some SyntaxError)"
    using decode_failure_is_fatal [OF 5 6, of SyntaxError] 7
    by (simp add: systemd_def)
  ultimately show ?thesis
    by simp
qed

text \<open>
  C8, as the code has it. Neither delete is guarded: when the delete of a record or of an
  unsent entry fails, whatever the failure (the record already gone, or the store
  unavailable), the rejection is thrown out of the task. The failed delete is the last call
  of the task: the failure is not logged and no later record or entry is processed.
\<close>

theorem failed_delete_is_fatal:
  "(es_search env tr (esIndex alertType) = Inr (before @ h # later) \<longrightarrow>
    for_each (dispatch_hit env alertType) before (tr @ [Search (esIndex alertType)])
      = (evs, None) \<longrightarrow>
    alert_contexts env h = Inr alerts \<longrightarrow>
    for_each (send_alert env alertType) alerts (tr @ Search (esIndex alertType) # evs)
      = (sent, None) \<longrightarrow>
    es_delete env (tr @ Search (esIndex alertType) # evs @ sent) (esIndex alertType) (hit_id h)
      = Some f \<longrightarrow>
    dispatcher env alertType tr =
      (Search (esIndex alertType) # evs @ sent
         @ [Delete (esIndex alertType) (hit_id h) (Some f)],
       Some (EsError f)))
 \<and> (es_search env tr unsentSlacksIndex = Inr (before' @ h' # later') \<longrightarrow>
    for_each (drain_hit env) before' (tr @ [Search unsentSlacksIndex]) = (evs', None) \<longrightarrow>
    unsent_text h' = Inr (message, posted_text) \<longrightarrow>
    slack_postMessage env (tr @ Search unsentSlacksIndex # evs' @ [ConsoleLog (found_line h')])
      slackChannel posted_text = Ok \<longrightarrow>
    es_delete env
      (tr @ Search unsentSlacksIndex # evs'
         @ [ConsoleLog (found_line h'), PostMessage slackChannel posted_text Ok,
            ConsoleLog (''posted '' @ number_to_string (Finite (of_nat (length message)))
                          @ '' chars to Slack'')])
      unsentSlacksIndex (hit_id h') = Some f' \<longrightarrow>
    drainer env tr =
      (Search unsentSlacksIndex # evs'
         @ [ConsoleLog (found_line h'), PostMessage slackChannel posted_text Ok,
            ConsoleLog (''posted '' @ number_to_string (Finite (of_nat (length message)))
                          @ '' chars to Slack''),
            Delete unsentSlacksIndex (hit_id h') (Some f')],
       Some (EsError f')))"
proof (intro conjI impI)
  assume "es_search env tr (esIndex alertType) = Inr (before @ h # later)"
    "for_each (dispatch_hit env alertType) before (tr @ [Search (esIndex alertType)])
       = (evs, None)"
    "alert_contexts env h = Inr alerts"
    "for_each (send_alert env alertType) alerts (tr @ Search (esIndex alertType) # evs)
       = (sent, None)"
    "es_delete env (tr @ Search (esIndex alertType) # evs @ sent) (esIndex alertType) (hit_id h)
       = Some f"
  then show "dispatcher env alertType tr =
      (Search (esIndex alertType) # evs @ sent
         @ [Delete (esIndex alertType) (hit_id h) (Some f)],
       Some (EsError f))"
    by (simp add: dispatcher_def for_each_append dispatch_hit_def)
next
  assume a: "es_search env tr unsentSlacksIndex = Inr (before' @ h' # later')"
    "for_each (drain_hit env) before' (tr @ [Search unsentSlacksIndex]) = (evs', None)"
    "unsent_text h' = Inr (message, posted_text)"
    "slack_postMessage env (tr @ Search unsentSlacksIndex # evs' @ [ConsoleLog (found_line h')])
      slackChannel posted_text = Ok"
    and d: "es_delete env
      (tr @ Search unsentSlacksIndex # evs'
         @ [ConsoleLog (found_line h'), PostMessage slackChannel posted_text Ok,
            ConsoleLog (''posted '' @ number_to_string (Finite (of_nat (length message)))
                          @ '' chars to Slack'')])
      unsentSlacksIndex (hit_id h') = Some f'"
  have "slack_postMessage env
          ((tr @ Search unsentSlacksIndex # evs') @ [ConsoleLog (found_line h')])
          slackChannel posted_text = Ok"
    using a(4) by simp
  note step = drain_hit_ok [OF a(3) this]
  show "drainer env tr =
      (Search unsentSlacksIndex # evs'
         @ [ConsoleLog (found_line h'), PostMessage slackChannel posted_text Ok,
            ConsoleLog (''posted '' @ number_to_string (Finite (of_nat (length message)))
                          @ '' chars to Slack''),
            Delete unsentSlacksIndex (hit_id h') (Some f')],
       Some (EsError f'))"
    using a(1,2) d by (simp add: drainer_def for_each_append step Let_def)
qed

lemma alert_contexts_empty_record:
  "alert_contexts already_removed (empty_record k) = Inr []"
  by (simp add: alert_contexts_def empty_record_def already_removed_def calm_def and_then_def)

theorem failed_delete_is_fatal_witness:
  "dispatcher already_removed log_errors [] =
     ([Search ''alerts-log-errors'', Delete ''alerts-log-errors'' ''r1'' (Some NotFound)],
      Some (EsError NotFound))
 \<and> drainer store_down_on_delete [] =
     ([Search unsentSlacksIndex,
       ConsoleLog (found_line unsent_nginx),
       PostMessage slackChannel nginx_retry_text Ok,
       ConsoleLog ''posted 69 chars to Slack'',
       Delete unsentSlacksIndex ''u1'' (Some StoreUnavailable)],
      Some (EsError StoreUnavailable))"
proof -
  have 1: "es_search already_removed [] (esIndex log_errors)
             = Inr ([] @ empty_record ''r1'' # [empty_record ''r2''])"
    by (simp add: already_removed_def calm_def)
  have 2: "for_each (dispatch_hit already_removed log_errors) []
             ([] @ [Search (esIndex log_errors)]) = ([], None)"
    by simp
  have 3: "for_each (send_alert already_removed log_errors) []
             ([] @ Search (esIndex log_errors) # []) = ([], None)"
    by simp
  have 4: "es_delete already_removed ([] @ Search (esIndex log_errors) # [] @ [])
             (esIndex log_errors) (hit_id (empty_record ''r1'')) = Some NotFound"
    by (simp add: already_removed_def calm_def empty_record_def)
  have 5: "es_search store_down_on_delete [] unsentSlacksIndex
             = Inr ([] @ unsent_nginx # [unsent_disk])"
    by (simp add: store_down_on_delete_def two_unsent_def calm_def)
  have 6: "for_each (drain_hit store_down_on_delete) [] ([] @ [Search unsentSlacksIndex])
             = ([], None)"
    by simp
  have 7: "slack_postMessage store_down_on_delete
             ([] @ Search unsentSlacksIndex # [] @ [ConsoleLog (found_line unsent_nginx)])
             slackChannel nginx_retry_text = Ok"
    by (simp add: store_down_on_delete_def two_unsent_def calm_def)
  have 8: "es_delete store_down_on_delete
      ([] @ Search unsentSlacksIndex # []
         @ [ConsoleLog (found_line unsent_nginx), PostMessage slackChannel nginx_retry_text Ok,
            ConsoleLog (''posted '' @ number_to_string (Finite (of_nat (length late_nginx)))
                          @ '' chars to Slack'')])
      unsentSlacksIndex (hit_id unsent_nginx) = Some StoreUnavailable"
    by (simp add: store_down_on_delete_def two_unsent_def calm_def)
  note dispatcher_side =
    failed_delete_is_fatal
      [where env = already_removed and tr = "[]" and alertType = log_errors and before = "[]"
         and h = "empty_record ''r1''" and later = "[empty_record ''r2'']" and evs = "[]"
         and alerts = "[]" and sent = "[]" and f = NotFound, THEN conjunct1]
  note drainer_side =
    failed_delete_is_fatal
      [where env = store_down_on_delete and tr = "[]" and before' = "[]" and h' = unsent_nginx
         and later' = "[unsent_disk]" and evs' = "[]" and message = late_nginx
         and posted_text = nginx_retry_text and f' = StoreUnavailable, THEN conjunct2]
  have "dispatcher already_removed log_errors [] =
     ([Search ''alerts-log-errors'', Delete ''alerts-log-errors'' ''r1'' (Some NotFound)],
      Some (EsError NotFound))"
    using dispatcher_side 1 2 3 4 alert_contexts_empty_record [of "''r1''"]
    by (simp add: log_errors_def empty_record_def)
  moreover have "drainer store_down_on_delete [] =
     ([Search unsentSlacksIndex,
       ConsoleLog (found_line unsent_nginx),
       PostMessage slackChannel nginx_retry_text Ok,
       ConsoleLog ''posted 69 chars to Slack'',
       Delete unsentSlacksIndex ''u1'' (Some StoreUnavailable)],
      Some (EsError StoreUnavailable))"
    using drainer_side 5 6 7 8 unsent_text_nginx
    by (simp add: unsent_nginx_def length_late_nginx number_to_string_69)
  ultimately show ?thesis
    by simp
qed

text \<open>
  C8, as the specification states it, fails: the first of two records is already gone when
  the dispatcher deletes it, and the dispatcher neither logs this nor goes on to the second
  record. The task ends with the rejection of the delete.
\<close>

theorem not_found_on_delete_counterexample:
  "dispatcher already_removed log_errors [] =
     ([Search ''alerts-log-errors'', Delete ''alerts-log-errors'' ''r1'' (Some NotFound)],
      Some (EsError NotFound))"
proof -
  have s: "es_search already_removed [] ''alerts-log-errors''
             = Inr [empty_record ''r1'', empty_record ''r2'']"
    by (simp add: already_removed_def calm_def)
  have d: "es_delete already_removed [Search ''alerts-log-errors''] ''alerts-log-errors'' ''r1''
             = Some NotFound"
    by (simp add: already_removed_def calm_def)
  have k: "hit_id (empty_record ''r1'') = ''r1''"
    by (simp add: empty_record_def)
  show ?thesis
    by (simp add: dispatcher_def dispatch_hit_def alert_contexts_empty_record log_errors_def
        s d k)
qed

lemma try_send_failed:
  assumes "alert_text subject host message = Inr text"
    and "slack_postMessage env tr slackChannel text = reply"
    and "reply \<noteq> Ok"
  shows "try_send env host subject message tr =
           ([PostMessage slackChannel text reply],
            Some (if reply = NotOk then NonOkError else SlackError))"
  using assms by (cases reply) (simp_all add: try_send_def)

lemma send_alert_failed:
  assumes "path alert [''_source'', ''host''] = Inr host"
    and "getSubjectFunc alertType alert = Inr subject"
    and "getMessageFunc alertType alert = Inr message"
    and "alert_text subject host message = Inr text"
    and "slack_postMessage env tr slackChannel text = reply"
    and "reply \<noteq> Ok"
  shows "send_alert env alertType alert tr =
     (let err = (if reply = NotOk then NonOkError else SlackError);
          body = unsent_body host subject message;
          r = es_index env (tr @ [PostMessage slackChannel text reply, ConsoleError err])
                unsentSlacksIndex body
      in ([PostMessage slackChannel text reply, ConsoleError err, Index unsentSlacksIndex body r],
          map_option EsError r))"
  using assms(1-3) try_send_failed [OF assms(4-6)]
  by (simp add: send_alert_def requeue_def Let_def)

lemma catch_stores_formatter_output:
  assumes "path alert [''_source'', ''host''] = Inr host"
    and "getSubjectFunc alertType alert = Inr subject"
    and "getMessageFunc alertType alert = Inr message"
    and "try_send env host subject message tr = (sent, Some err)"
  shows "send_alert env alertType alert tr =
     (let body = JObject [(''host'', host), (''subject'', subject), (''message'', message)];
          r = es_index env (tr @ sent @ [ConsoleError err]) unsentSlacksIndex body
      in (sent @ [ConsoleError err, Index unsentSlacksIndex body r], map_option EsError r))"
  using assms by (simp add: send_alert_def requeue_def unsent_body_def Let_def)

lemma nginx_down_formatted:
  "path nginx_down [''_source'', ''host''] = Inr (JString ''web1'')"
  "getSubjectFunc systemd nginx_down = Inr (JString ''Down systemd service'')"
  "getMessageFunc systemd nginx_down = Inr (JString ''nginx is failed'')"
  "alert_text (JString ''Down systemd service'') (JString ''web1'') (JString ''nginx is failed'')
     = Inr nginx_text"
  by (simp_all add: nginx_down_def systemd_def template2_def and_then_def alert_text_def
      nginx_text_def anger_def repeat_def numeral_eq_Suc)

lemma redis_unhealthy_formatted:
  "path redis_unhealthy [''_source'', ''host''] = Inr (JString ''db1'')"
  "getSubjectFunc docker_unhealthy_container redis_unhealthy
     = Inr (JString ''Unhealthy docker container'')"
  "getMessageFunc docker_unhealthy_container redis_unhealthy
     = Inr (JString ''redis is Up 2 hours (unhealthy)'')"
  "alert_text (JString ''Unhealthy docker container'') (JString ''db1'')
       (JString ''redis is Up 2 hours (unhealthy)'')
     = Inr redis_text"
  by (simp_all add: redis_unhealthy_def docker_unhealthy_container_def template2_def and_then_def
      alert_text_def redis_text_def anger_def repeat_def numeral_eq_Suc)

text \<open>
  C3. When the send for a sub-alert fails, the document that the dispatcher stores in the
  unsent queue has exactly the three fields \<^verbatim>\<open>host\<close>, \<^verbatim>\<open>subject\<close> and
  \<^verbatim>\<open>message\<close>, holding the host of the sub-alert and the subject and message that the
  formatter gave for it. The banner of repeated emoji is part of the text that was posted,
  not of the stored document.
\<close>

theorem unsent_message_round_trip:
  assumes "path alert [''_source'', ''host''] = Inr host"
    and "getSubjectFunc alertType alert = Inr subject"
    and "getMessageFunc alertType alert = Inr message"
    and "to_string subject = Inr s"
    and "to_string host = Inr ho"
    and "to_string message = Inr m"
    and "text = repeat '':anger: '' 4 @ newline @ ''*'' @ s @ ''*'' @ newline @ ho @ newline
                  @ newline @ m"
    and "slack_postMessage env tr slackChannel text = reply"
    and "reply \<noteq> Ok"
    and "err = (if reply = NotOk then NonOkError else SlackError)"
    and "body = JObject [(''host'', host), (''subject'', subject), (''message'', message)]"
    and "es_index env (tr @ [PostMessage slackChannel text reply, ConsoleError err])
           unsentSlacksIndex body = r"
  shows "send_alert env alertType alert tr =
           ([PostMessage slackChannel text reply, ConsoleError err,
             Index unsentSlacksIndex body r],
            map_option EsError r)
       \<and> get body ''host'' = Inr host
       \<and> get body ''subject'' = Inr subject
       \<and> get body ''message'' = Inr message"
proof -
  have "alert_text subject host message = Inr text"
    using assms(4-7) by (simp add: alert_text_def and_then_def)
  from send_alert_failed [OF assms(1-3) this assms(8,9)] assms(10-12) show ?thesis
    by (simp add: Let_def unsent_body_def)
qed

theorem unsent_message_round_trip_witness:
  "send_alert slack_unreachable docker_unhealthy_container redis_unhealthy [] =
     ([PostMessage slackChannel redis_text Rejected,
       ConsoleError SlackError,
       Index unsentSlacksIndex
         (JObject [(''host'', JString ''db1''),
                   (''subject'', JString ''Unhealthy docker container''),
                   (''message'', JString ''redis is Up 2 hours (unhealthy)'')])
         None],
      None)"
proof -
  have t: "redis_text = repeat '':anger: '' 4 @ newline @ ''*'' @ ''Unhealthy docker container''
             @ ''*'' @ newline @ ''db1'' @ newline @ newline @ ''redis is Up 2 hours (unhealthy)''"
    by (simp add: redis_text_def anger_def repeat_def numeral_eq_Suc)
  have p: "slack_postMessage slack_unreachable [] slackChannel redis_text = Rejected"
    by (simp add: slack_unreachable_def calm_def)
  have i: "es_index slack_unreachable
             ([] @ [PostMessage slackChannel redis_text Rejected, ConsoleError SlackError])
             unsentSlacksIndex
             (JObject [(''host'', JString ''db1''),
                       (''subject'', JString ''Unhealthy docker container''),
                       (''message'', JString ''redis is Up 2 hours (unhealthy)'')]) = None"
    by (simp add: slack_unreachable_def calm_def)
  have s: "to_string (JString ''Unhealthy docker container'') = Inr ''Unhealthy docker container''"
    and ho: "to_string (JString ''db1'') = Inr ''db1''"
    and m: "to_string (JString ''redis is Up 2 hours (unhealthy)'')
              = Inr ''redis is Up 2 hours (unhealthy)''"
    by simp_all
  have r: "Rejected \<noteq> Ok"
    by simp
  have e: "SlackError = (if Rejected = NotOk then NonOkError else SlackError)"
    by simp
  show ?thesis
    using unsent_message_round_trip [OF redis_unhealthy_formatted(1-3) s ho m t p r e refl i]
    by simp
qed

text \<open>
  C4. A send that is answered \<^verbatim>\<open>{ok: false}\<close> and a send that is rejected are handled
  by the same \<^verbatim>\<open>catch\<close> block: in both cases the error is logged and the formatted
  message is stored in the unsent queue; when that insert succeeds the loop goes on with the
  remaining sub-alerts of the record, and once they are processed the record is deleted.
\<close>

theorem failures_requeue_and_continue:
  assumes "alert_contexts env h = Inr (before @ alert # later)"
    and "for_each (send_alert env alertType) before tr = (evs, None)"
    and "path alert [''_source'', ''host''] = Inr host"
    and "getSubjectFunc alertType alert = Inr subject"
    and "getMessageFunc alertType alert = Inr message"
    and "alert_text subject host message = Inr text"
    and "slack_postMessage env (tr @ evs) slackChannel text = reply"
    and "reply = NotOk \<or> reply = Rejected"
    and "err = (if reply = NotOk then NonOkError else SlackError)"
    and "es_index env (tr @ evs @ [PostMessage slackChannel text reply, ConsoleError err])
           unsentSlacksIndex (unsent_body host subject message) = None"
    and "requeued = [PostMessage slackChannel text reply, ConsoleError err,
                     Index unsentSlacksIndex (unsent_body host subject message) None]"
    and "for_each (send_alert env alertType) later (tr @ evs @ requeued) = (rest, None)"
    and "es_delete env (tr @ evs @ requeued @ rest) (esIndex alertType) (hit_id h) = d"
  shows "dispatch_hit env alertType h tr =
           (evs @ requeued @ rest @ [Delete (esIndex alertType) (hit_id h) d],
            map_option EsError d)"
proof -
  have "reply \<noteq> Ok"
    using assms(8) by auto
  from send_alert_failed [OF assms(3-7) this]
  have "send_alert env alertType alert (tr @ evs) = (requeued, None)"
    using assms(9-11) by (simp add: Let_def)
  then show ?thesis
    using assms(1,2,12,13) by (simp add: dispatch_hit_def for_each_append)
qed

theorem failures_requeue_and_continue_witness:
  "dispatch_hit slack_fails_twice systemd (alert_record ''r1'') [] =
     ([PostMessage slackChannel nginx_text NotOk,
       ConsoleError NonOkError,
       Index unsentSlacksIndex nginx_unsent None,
       PostMessage slackChannel nginx_text Rejected,
       ConsoleError SlackError,
       Index unsentSlacksIndex nginx_unsent None,
       Delete ''alerts-systemd'' ''r1'' None],
      None)"
proof -
  let ?first = "[PostMessage slackChannel nginx_text NotOk, ConsoleError NonOkError,
                 Index unsentSlacksIndex nginx_unsent None]"
  let ?second = "[PostMessage slackChannel nginx_text Rejected, ConsoleError SlackError,
                  Index unsentSlacksIndex nginx_unsent None]"
  have body: "unsent_body (JString ''web1'') (JString ''Down systemd service'')
                (JString ''nginx is failed'') = nginx_unsent"
    by (simp add: unsent_body_def nginx_unsent_def)
  have 1: "alert_contexts slack_fails_twice (alert_record ''r1'')
             = Inr ([] @ nginx_down # [nginx_down])"
    by (simp add: alert_contexts_def alert_record_def slack_fails_twice_def calm_def and_then_def)
  have 2: "for_each (send_alert slack_fails_twice systemd) [] [] = ([], None)"
    by simp
  have 3: "slack_postMessage slack_fails_twice ([] @ []) slackChannel nginx_text = NotOk"
    by (simp add: slack_fails_twice_def calm_def)
  have 4: "es_index slack_fails_twice
             ([] @ [] @ [PostMessage slackChannel nginx_text NotOk, ConsoleError NonOkError])
             unsentSlacksIndex
             (unsent_body (JString ''web1'') (JString ''Down systemd service'')
                (JString ''nginx is failed'')) = None"
    by (simp add: slack_fails_twice_def calm_def)
  have 5: "?first = [PostMessage slackChannel nginx_text NotOk, ConsoleError NonOkError,
                     Index unsentSlacksIndex
                       (unsent_body (JString ''web1'') (JString ''Down systemd service'')
                          (JString ''nginx is failed'')) None]"
    by (simp add: body)
  have "slack_postMessage slack_fails_twice ([] @ [] @ ?first) slackChannel nginx_text = Rejected"
    by (simp add: slack_fails_twice_def calm_def)
  from send_alert_failed [OF nginx_down_formatted this]
  have "send_alert slack_fails_twice systemd nginx_down ([] @ [] @ ?first) = (?second, None)"
    by (simp add: Let_def body slack_fails_twice_def calm_def)
  then have 6: "for_each (send_alert slack_fails_twice systemd) [nginx_down] ([] @ [] @ ?first)
                  = (?second, None)"
    by simp
  have 7: "es_delete slack_fails_twice ([] @ [] @ ?first @ ?second) (esIndex systemd)
             (hit_id (alert_record ''r1'')) = None"
    by (simp add: slack_fails_twice_def calm_def)
  show ?thesis
    using failures_requeue_and_continue [OF 1 2 nginx_down_formatted 3 _ _ 4 5 6 7]
    by (simp add: systemd_def alert_record_def)
qed

section \<open>Which calls a task can make\<close>

lemma for_each_all:
  assumes "\<And>x tr evs r. body x tr = (evs, r) \<Longrightarrow> \<forall>e\<in>set evs. P e"
    and "for_each body xs tr = (evs, r)"
  shows "\<forall>e\<in>set evs. P e"
  using assms(2)
proof (induction xs arbitrary: tr evs r)
  case Nil
  then show ?case by simp
next
  case (Cons x xs)
  obtain evs1 r1 where b: "body x tr = (evs1, r1)"
    by (cases "body x tr")
  show ?case
  proof (cases r1)
    case None
    obtain evs2 r2 where l: "for_each body xs (tr @ evs1) = (evs2, r2)"
      by (cases "for_each body xs (tr @ evs1)")
    from Cons.prems b None l have "evs = evs1 @ evs2"
      by simp
    with assms(1) [OF b] Cons.IH [OF l] show ?thesis
      by auto
  next
    case (Some e)
    with Cons.prems b have "evs = evs1"
      by simp
    with assms(1) [OF b] show ?thesis
      by simp
  qed
qed

lemma for_each_event:
  assumes "for_each body xs tr = (evs, r)"
    and "evs = pre @ e # post"
  shows "\<exists>x tr' evs1 r1 pre0 pre1 post1.
           x \<in> set xs \<and> body x tr' = (evs1, r1) \<and> evs1 = pre1 @ e # post1 \<and> pre = pre0 @ pre1"
  using assms
proof (induction xs arbitrary: tr evs r pre)
  case Nil
  then show ?case by simp
next
  case (Cons x xs)
  obtain evs1 r1 where b: "body x tr = (evs1, r1)"
    by (cases "body x tr")
  obtain evs2 r2 where l: "for_each body xs (tr @ evs1) = (evs2, r2)"
    by (cases "for_each body xs (tr @ evs1)")
  have "evs = evs1 \<or> evs = evs1 @ evs2"
    using Cons.prems(1) b l by (cases r1) simp_all
  then consider (here) us where "evs1 = pre @ e # us"
    | (there) us where "pre = evs1 @ us" and "evs2 = us @ e # post"
    using Cons.prems(2)
    by (auto simp: append_eq_append_conv2 append_eq_Cons_conv Cons_eq_append_conv)
  then show ?case
  proof cases
    case here
    with b show ?thesis
      by (intro exI [of _ x] exI [of _ tr] exI [of _ evs1] exI [of _ r1] exI [of _ "[]"]
          exI [of _ pre] exI [of _ us]) simp
  next
    case there
    have "r1 = None"
      using Cons.prems b there \<open>evs = evs1 \<or> evs = evs1 @ evs2\<close> by (cases r1) auto
    from Cons.IH [OF l there(2)] obtain y tr' evs1' r1' pre0 pre1 post1 where
      "y \<in> set xs" "body y tr' = (evs1', r1')" "evs1' = pre1 @ e # post1" "us = pre0 @ pre1"
      by blast
    with there(1) show ?thesis
      by (intro exI [of _ y] exI [of _ tr'] exI [of _ evs1'] exI [of _ r1']
          exI [of _ "evs1 @ pre0"] exI [of _ pre1] exI [of _ post1]) simp
  qed
qed

lemma drain_hit_delete:
  assumes "drain_hit env h tr = (evs, r)"
    and "evs = pre @ Delete i k d # post"
  shows "i = unsentSlacksIndex \<and> k = hit_id h
       \<and> (\<exists>message text.
             unsent_text h = Inr (message, text)
           \<and> pre = [ConsoleLog (found_line h), PostMessage slackChannel text Ok,
                     ConsoleLog (''posted '' @ number_to_string (Finite (of_nat (length message)))
                                   @ '' chars to Slack'')])"
  using assms
  unfolding drain_hit_def Let_def posted_line_string
  by (auto simp: Cons_eq_append_conv split: sum.splits slack_reply.splits option.splits)

lemma send_alert_cases:
  assumes "send_alert env alertType alert tr = (evs, r)"
  obtains (thrown) e where "evs = []" and "r = Some e"
  | (delivered) t line where
      "evs = [PostMessage slackChannel t Ok, ConsoleLog line, SetTimeout slackGracePeriod]"
      and "r = None"
  | (requeued) posts err body ri where
      "evs = posts @ [ConsoleError err, Index unsentSlacksIndex body ri]"
      and "r = map_option EsError ri"
      and "posts = [] \<or> (\<exists>text reply. posts = [PostMessage slackChannel text reply])"
  using assms
  unfolding send_alert_def try_send_def requeue_def Let_def
  by (auto split: sum.splits slack_reply.splits)

lemma send_alert_no_delete:
  assumes "send_alert env alertType alert tr = (evs, r)"
  shows "\<forall>e\<in>set evs. \<forall>i k d. e \<noteq> Delete i k d"
  using assms by (rule send_alert_cases) auto

lemma send_alert_index_unsent:
  assumes "send_alert env alertType alert tr = (evs, r)"
  shows "\<forall>e\<in>set evs. \<forall>i b d. e = Index i b d \<longrightarrow> i = unsentSlacksIndex"
  using assms by (rule send_alert_cases) auto

lemma send_alert_failed_index:
  assumes "send_alert env alertType alert tr = (evs, r)"
    and "Index i b (Some f) \<in> set evs"
  shows "r = Some (EsError f)"
  using assms(1) by (rule send_alert_cases) (use assms(2) in auto)

lemma send_alerts_failed_index:
  assumes "for_each (send_alert env alertType) alerts tr = (evs, r)"
    and "Index i b (Some f) \<in> set evs"
  shows "r = Some (EsError f)"
  using assms
proof (induction alerts arbitrary: tr evs r)
  case Nil
  then show ?case by simp
next
  case (Cons a alerts)
  obtain evs1 r1 where b: "send_alert env alertType a tr = (evs1, r1)"
    by (cases "send_alert env alertType a tr")
  show ?case
  proof (cases r1)
    case None
    obtain evs2 r2 where l: "for_each (send_alert env alertType) alerts (tr @ evs1) = (evs2, r2)"
      by (cases "for_each (send_alert env alertType) alerts (tr @ evs1)")
    from Cons.prems(1) b None l have e: "evs = evs1 @ evs2" and r: "r = r2"
      by simp_all
    have "Index i b (Some f) \<notin> set evs1"
      using send_alert_failed_index [OF b] None by auto
    with Cons.prems(2) e have "Index i b (Some f) \<in> set evs2"
      by simp
    from Cons.IH [OF l this] r show ?thesis
      by simp
  next
    case (Some e)
    with Cons.prems(1) b have "evs = evs1" and "r = r1"
      by simp_all
    with Cons.prems(2) send_alert_failed_index [OF b] show ?thesis
      by simp
  qed
qed

text \<open>
  C7. When the insert into the unsent queue fails, the rejection is thrown out of the
  \<^verbatim>\<open>catch\<close> block and out of the dispatcher: the task ends with the calls made for
  this record so far, and there is no delete among them. The record stays in its index.
\<close>

theorem failed_insert_keeps_record:
  assumes "es_search env tr (esIndex alertType) = Inr (before @ h # later)"
    and "for_each (dispatch_hit env alertType) before (tr @ [Search (esIndex alertType)])
           = (evs, None)"
    and "dispatch_hit env alertType h (tr @ Search (esIndex alertType) # evs) = (calls, r)"
    and "Index i b (Some f) \<in> set calls"
  shows "(\<forall>i' k d. Delete i' k d \<notin> set calls)
       \<and> dispatcher env alertType tr = (Search (esIndex alertType) # evs @ calls, Some (EsError f))"
proof -
  obtain alerts where dec: "alert_contexts env h = Inr alerts"
    using assms(3,4) by (cases "alert_contexts env h") (auto simp: dispatch_hit_def)
  obtain sent r1 where
    loop: "for_each (send_alert env alertType) alerts (tr @ Search (esIndex alertType) # evs)
             = (sent, r1)"
    by (cases "for_each (send_alert env alertType) alerts (tr @ Search (esIndex alertType) # evs)")
  have no_delete: "\<forall>e\<in>set sent. \<forall>i k d. e \<noteq> Delete i k d"
    by (rule for_each_all [where body = "send_alert env alertType", OF _ loop])
      (rule send_alert_no_delete)
  have "r1 \<noteq> None"
  proof
    assume "r1 = None"
    with assms(3) dec loop have "calls = sent @
      [Delete (esIndex alertType) (hit_id h)
        (es_delete env (tr @ Search (esIndex alertType) # evs @ sent) (esIndex alertType) (hit_id h))]"
      by (auto simp: dispatch_hit_def Let_def)
    with assms(4) have "Index i b (Some f) \<in> set sent"
      by auto
    from send_alerts_failed_index [OF loop this] \<open>r1 = None\<close> show False
      by simp
  qed
  then obtain e where "r1 = Some e"
    by auto
  with assms(3) dec loop have c: "calls = sent" and "r = Some e"
    by (auto simp: dispatch_hit_def)
  with send_alerts_failed_index [OF loop] assms(4) \<open>r1 = Some e\<close> have "r = Some (EsError f)"
    by auto
  with c no_delete assms(1,2,3) show ?thesis
    by (auto simp: dispatcher_def for_each_append)
qed

lemma send_nginx_refused:
  "send_alert insert_refused systemd nginx_down tr =
     ([PostMessage slackChannel nginx_text NotOk, ConsoleError NonOkError,
       Index unsentSlacksIndex nginx_unsent (Some StoreUnavailable)],
      Some (EsError StoreUnavailable))"
proof -
  have "slack_postMessage insert_refused tr slackChannel nginx_text = NotOk"
    by (simp add: insert_refused_def calm_def)
  from send_alert_failed [OF nginx_down_formatted this] show ?thesis
    by (simp add: Let_def insert_refused_def calm_def unsent_body_def nginx_unsent_def)
qed

theorem failed_insert_keeps_record_witness:
  "dispatcher insert_refused systemd [] =
     ([Search ''alerts-systemd'',
       PostMessage slackChannel nginx_text NotOk,
       ConsoleError NonOkError,
       Index unsentSlacksIndex nginx_unsent (Some StoreUnavailable)],
      Some (EsError StoreUnavailable))"
proof -
  let ?calls = "[PostMessage slackChannel nginx_text NotOk, ConsoleError NonOkError,
                 Index unsentSlacksIndex nginx_unsent (Some StoreUnavailable)]"
  have 1: "es_search insert_refused [] (esIndex systemd)
             = Inr ([] @ alert_record ''r1'' # [alert_record ''r2''])"
    by (simp add: insert_refused_def calm_def)
  have 2: "for_each (dispatch_hit insert_refused systemd) [] ([] @ [Search (esIndex systemd)])
             = ([], None)"
    by simp
  have "alert_contexts insert_refused (alert_record ''r1'') = Inr [nginx_down]"
    by (simp add: alert_contexts_def alert_record_def insert_refused_def calm_def and_then_def)
  then have 3: "dispatch_hit insert_refused systemd (alert_record ''r1'')
                  ([] @ Search (esIndex systemd) # [])
                  = (?calls, Some (EsError StoreUnavailable))"
    by (simp add: dispatch_hit_def send_nginx_refused)
  have 4: "Index unsentSlacksIndex nginx_unsent (Some StoreUnavailable) \<in> set ?calls"
    by simp
  show ?thesis
    using failed_insert_keeps_record [OF 1 2 3 4] by (simp add: systemd_def)
qed

lemma alertTypes_esIndex:
  assumes "alertType \<in> set (alertTypes s2n)"
  shows "esIndex alertType \<noteq> unsentSlacksIndex"
  using assms
  by (auto simp: alertTypes_def log_errors_def disk_space_def memory_usage_def systemd_def
      docker_unhealthy_container_def unsentSlacksIndex_def)

lemma dispatch_hit_writes:
  assumes "esIndex alertType \<noteq> unsentSlacksIndex"
    and "dispatch_hit env alertType h tr = (evs, r)"
  shows "\<forall>e\<in>set evs. (\<forall>k d. e \<noteq> Delete unsentSlacksIndex k d)
                     \<and> (\<forall>i b d. e = Index i b d \<longrightarrow> i = unsentSlacksIndex)"
proof (cases "alert_contexts env h")
  case (Inl e)
  with assms(2) show ?thesis
    by (simp add: dispatch_hit_def)
next
  case (Inr alerts)
  obtain sent r1 where loop: "for_each (send_alert env alertType) alerts tr = (sent, r1)"
    by (cases "for_each (send_alert env alertType) alerts tr")
  have sent: "\<forall>e\<in>set sent. (\<forall>k d. e \<noteq> Delete unsentSlacksIndex k d)
                          \<and> (\<forall>i b d. e = Index i b d \<longrightarrow> i = unsentSlacksIndex)"
  proof (rule for_each_all [where body = "send_alert env alertType", OF _ loop])
    fix x tr' evs' r'
    assume "send_alert env alertType x tr' = (evs', r')"
    from send_alert_no_delete [OF this] send_alert_index_unsent [OF this]
    show "\<forall>e\<in>set evs'. (\<forall>k d. e \<noteq> Delete unsentSlacksIndex k d)
                        \<and> (\<forall>i b d. e = Index i b d \<longrightarrow> i = unsentSlacksIndex)"
      by blast
  qed
  have "evs = sent \<or> (\<exists>d. evs = sent @ [Delete (esIndex alertType) (hit_id h) d])"
    using assms(2) Inr loop by (cases r1) (auto simp: dispatch_hit_def Let_def)
  with sent assms(1) show ?thesis
    by fastforce
qed

section \<open>The unsent queue\<close>

text \<open>
  C10. Entries leave the unsent queue only through the drainer, and only after their
  message was delivered: in a run of the drainer every delete is a delete in the unsent
  queue, of an entry that the search returned, and the two calls before it are the send of
  that entry's text, answered ok, and the log line for it. The dispatcher of each of the
  five alert types never deletes from the unsent queue, and every insert it makes goes into
  the unsent queue.
\<close>

theorem unsent_queue_only_drained:
  "(drainer env tr = (evs, r) \<longrightarrow> evs = pre @ Delete i k d # post \<longrightarrow>
      i = unsentSlacksIndex
    \<and> (\<exists>hits h message text pre'.
          es_search env tr unsentSlacksIndex = Inr hits \<and> h \<in> set hits \<and> hit_id h = k
        \<and> unsent_text h = Inr (message, text)
        \<and> pre = pre' @ [PostMessage slackChannel text Ok,
                         ConsoleLog (''posted ''
                           @ number_to_string (Finite (of_nat (length message)))
                           @ '' chars to Slack'')]))
 \<and> (alertType \<in> set (alertTypes s2n) \<longrightarrow> dispatcher env' alertType tr' = (evs', r') \<longrightarrow>
      (\<forall>k d. Delete unsentSlacksIndex k d \<notin> set evs')
    \<and> (\<forall>i b d. Index i b d \<in> set evs' \<longrightarrow> i = unsentSlacksIndex))"
proof (intro conjI impI)
  assume run: "drainer env tr = (evs, r)" and at: "evs = pre @ Delete i k d # post"
  obtain hits where hits: "es_search env tr unsentSlacksIndex = Inr hits"
    using run at
    by (cases "es_search env tr unsentSlacksIndex") (auto simp: drainer_def Cons_eq_append_conv)
  obtain calls where
    loop: "for_each (drain_hit env) hits (tr @ [Search unsentSlacksIndex]) = (calls, r)"
    and evs: "evs = Search unsentSlacksIndex # calls"
    using run hits by (auto simp: drainer_def split: prod.splits)
  from at evs obtain pre2 where pre: "pre = Search unsentSlacksIndex # pre2"
    and calls: "calls = pre2 @ Delete i k d # post"
    by (cases pre) auto
  from for_each_event [OF loop calls] obtain h tr1 evs1 r1 pre0 pre1 post1 where
    h: "h \<in> set hits" "drain_hit env h tr1 = (evs1, r1)" "evs1 = pre1 @ Delete i k d # post1"
      "pre2 = pre0 @ pre1"
    by blast
  from drain_hit_delete [OF h(2,3)] obtain message t where
    found: "i = unsentSlacksIndex" "k = hit_id h" "unsent_text h = Inr (message, t)"
      "pre1 = [ConsoleLog (found_line h), PostMessage slackChannel t Ok,
               ConsoleLog (''posted '' @ number_to_string (Finite (of_nat (length message)))
                             @ '' chars to Slack'')]"
    by blast
  show "i = unsentSlacksIndex"
    by (rule found(1))
  have "pre = (Search unsentSlacksIndex # pre0 @ [ConsoleLog (found_line h)])
                @ [PostMessage slackChannel t Ok,
                   ConsoleLog (''posted '' @ number_to_string (Finite (of_nat (length message)))
                                 @ '' chars to Slack'')]"
    using pre h(4) found(4) by simp
  with hits h(1) found(2,3)
  show "\<exists>hits h message text pre'.
          es_search env tr unsentSlacksIndex = Inr hits \<and> h \<in> set hits \<and> hit_id h = k
        \<and> unsent_text h = Inr (message, text)
        \<and> pre = pre' @ [PostMessage slackChannel text Ok,
                         ConsoleLog (''posted ''
                           @ number_to_string (Finite (of_nat (length message)))
                           @ '' chars to Slack'')]"
    by blast
next
  assume at: "alertType \<in> set (alertTypes s2n)"
    and run: "dispatcher env' alertType tr' = (evs', r')"
  note other = alertTypes_esIndex [OF at]
  have "\<forall>e\<in>set evs'. (\<forall>k d. e \<noteq> Delete unsentSlacksIndex k d)
                      \<and> (\<forall>i b d. e = Index i b d \<longrightarrow> i = unsentSlacksIndex)"
  proof (cases "es_search env' tr' (esIndex alertType)")
    case (Inl f)
    with run show ?thesis
      by (auto simp: dispatcher_def)
  next
    case (Inr hits)
    obtain calls where
      loop: "for_each (dispatch_hit env' alertType) hits (tr' @ [Search (esIndex alertType)])
               = (calls, r')"
      and evs: "evs' = Search (esIndex alertType) # calls"
      using run Inr by (auto simp: dispatcher_def split: prod.splits)
    have "\<forall>e\<in>set calls. (\<forall>k d. e \<noteq> Delete unsentSlacksIndex k d)
                         \<and> (\<forall>i b d. e = Index i b d \<longrightarrow> i = unsentSlacksIndex)"
      by (rule for_each_all [where body = "dispatch_hit env' alertType", OF _ loop])
        (rule dispatch_hit_writes [OF other])
    with evs show ?thesis
      by simp
  qed
  then show "\<forall>k d. Delete unsentSlacksIndex k d \<notin> set evs'"
    and "\<forall>i b d. Index i b d \<in> set evs' \<longrightarrow> i = unsentSlacksIndex"
    by blast+
qed

lemma two_unsent_run:
  "drainer two_unsent [] =
     ([Search unsentSlacksIndex,
       ConsoleLog (found_line unsent_nginx),
       PostMessage slackChannel nginx_retry_text Ok,
       ConsoleLog ''posted 69 chars to Slack'',
       Delete unsentSlacksIndex ''u1'' None,
       SetTimeout 5000,
       ConsoleLog (found_line unsent_disk),
       PostMessage slackChannel disk_retry_text Ok,
       ConsoleLog ''posted 57 chars to Slack'',
       Delete unsentSlacksIndex ''u2'' None,
       SetTimeout 5000],
      None)"
proof -
  have s: "es_search two_unsent [] unsentSlacksIndex = Inr [unsent_nginx, unsent_disk]"
    by (simp add: two_unsent_def calm_def)
  have p: "slack_postMessage two_unsent tr c t = Ok" and d: "es_delete two_unsent tr i k = None"
    for tr c t i k
    by (simp_all add: two_unsent_def calm_def)
  show ?thesis
    by (simp add: drainer_def s drain_nginx_ok drain_disk_ok p d)
qed

lemma slack_unreachable_run:
  "dispatcher slack_unreachable docker_unhealthy_container [] =
     ([Search ''alerts-docker-unhealthy-container'',
       PostMessage slackChannel redis_text Rejected,
       ConsoleError SlackError,
       Index unsentSlacksIndex
         (JObject [(''host'', JString ''db1''),
                   (''subject'', JString ''Unhealthy docker container''),
                   (''message'', JString ''redis is Up 2 hours (unhealthy)'')])
         None,
       Delete ''alerts-docker-unhealthy-container'' ''r1'' None],
      None)"
proof -
  have s: "es_search slack_unreachable [] (esIndex docker_unhealthy_container)
             = Inr [alert_record ''r1'']"
    by (simp add: slack_unreachable_def calm_def)
  have c: "alert_contexts slack_unreachable (alert_record ''r1'') = Inr [redis_unhealthy]"
    by (simp add: alert_contexts_def alert_record_def slack_unreachable_def calm_def
        and_then_def)
  have p: "slack_postMessage slack_unreachable tr slackChannel redis_text = Rejected" for tr
    by (simp add: slack_unreachable_def calm_def)
  have a: "send_alert slack_unreachable docker_unhealthy_container redis_unhealthy tr =
     ([PostMessage slackChannel redis_text Rejected, ConsoleError SlackError,
       Index unsentSlacksIndex
         (JObject [(''host'', JString ''db1''),
                   (''subject'', JString ''Unhealthy docker container''),
                   (''message'', JString ''redis is Up 2 hours (unhealthy)'')])
         None], None)" for tr
    using send_alert_failed [OF redis_unhealthy_formatted p [of tr]]
    by (simp add: Let_def unsent_body_def slack_unreachable_def calm_def)
  have i: "esIndex docker_unhealthy_container = ''alerts-docker-unhealthy-container''"
    by (simp add: docker_unhealthy_container_def)
  have d: "es_delete slack_unreachable tr ix k = None" for tr ix k
    by (simp add: slack_unreachable_def calm_def)
  have k: "hit_id (alert_record ''r1'') = ''r1''"
    by (simp add: alert_record_def)
  show ?thesis
    by (simp add: dispatcher_def s dispatch_hit_def c a d k) (simp add: i)
qed

theorem unsent_queue_only_drained_witness:
  "(\<exists>hits h message text pre'.
      es_search two_unsent [] unsentSlacksIndex = Inr hits \<and> h \<in> set hits \<and> hit_id h = ''u2''
    \<and> unsent_text h = Inr (message, text)
    \<and> [Search unsentSlacksIndex,
        ConsoleLog (found_line unsent_nginx),
        PostMessage slackChannel nginx_retry_text Ok,
        ConsoleLog ''posted 69 chars to Slack'',
        Delete unsentSlacksIndex ''u1'' None,
        SetTimeout 5000,
        ConsoleLog (found_line unsent_disk),
        PostMessage slackChannel disk_retry_text Ok,
        ConsoleLog ''posted 57 chars to Slack'']
      = pre' @ [PostMessage slackChannel text Ok,
                ConsoleLog (''posted '' @ number_to_string (Finite (of_nat (length message)))
                              @ '' chars to Slack'')])
 \<and> Delete unsentSlacksIndex ''r1'' None
      \<notin> set [Search ''alerts-docker-unhealthy-container'',
               PostMessage slackChannel redis_text Rejected,
               ConsoleError SlackError,
               Index unsentSlacksIndex
                 (JObject [(''host'', JString ''db1''),
                           (''subject'', JString ''Unhealthy docker container''),
                           (''message'', JString ''redis is Up 2 hours (unhealthy)'')])
                 None,
               Delete ''alerts-docker-unhealthy-container'' ''r1'' None]"
proof -
  have split: "[Search unsentSlacksIndex,
       ConsoleLog (found_line unsent_nginx),
       PostMessage slackChannel nginx_retry_text Ok,
       ConsoleLog ''posted 69 chars to Slack'',
       Delete unsentSlacksIndex ''u1'' None,
       SetTimeout 5000,
       ConsoleLog (found_line unsent_disk),
       PostMessage slackChannel disk_retry_text Ok,
       ConsoleLog ''posted 57 chars to Slack'',
       Delete unsentSlacksIndex ''u2'' None,
       SetTimeout 5000]
     = [Search unsentSlacksIndex,
        ConsoleLog (found_line unsent_nginx),
        PostMessage slackChannel nginx_retry_text Ok,
        ConsoleLog ''posted 69 chars to Slack'',
        Delete unsentSlacksIndex ''u1'' None,
        SetTimeout 5000,
        ConsoleLog (found_line unsent_disk),
        PostMessage slackChannel disk_retry_text Ok,
        ConsoleLog ''posted 57 chars to Slack'']
       @ Delete unsentSlacksIndex ''u2'' None # [SetTimeout 5000]"
    by simp
  have member: "docker_unhealthy_container \<in> set (alertTypes (\<lambda>s. NaN))"
    by (simp add: alertTypes_def)
  note drained =
    unsent_queue_only_drained [THEN conjunct1, rule_format, OF two_unsent_run split]
  note dispatched =
    unsent_queue_only_drained [THEN conjunct2, rule_format, OF member slack_unreachable_run]
  from drained dispatched show ?thesis
    by blast
qed

section \<open>The formatters\<close>

text \<open>
  In binary64 the product of the Number read from \<^verbatim>\<open>0.92\<close> and 100 is exactly 92, and
  92 prints as \<^verbatim>\<open>92\<close>. This is a fact about these two Numbers, not about fractions in
  general: the product of the Number read from \<^verbatim>\<open>0.07\<close> and 100 is not 7 but the next
  Number above it (which prints as \<^verbatim>\<open>7.000000000000001\<close>).
\<close>

lemma times_100_of_92_hundredths:
  "js_times (round_to_double (92 / 100)) (Finite 100) = Finite 92"
  apply (unfold round_to_double_def Let_def floor_log2_def)
  apply (simp add: round_eval)
  apply (unfold round_to_double_def Let_def floor_log2_def)
  apply (simp add: round_eval)
  done

lemma times_100_of_92_hundredths_reduced:
  "js_times (round_to_double (23 / 25)) (Finite 100) = Finite 92"
  using times_100_of_92_hundredths by simp

lemma times_100_of_7_hundredths:
  "js_times (round_to_double (7 / 100)) (Finite 100)
     = Finite (7 + 1 / 2 ^ 50)"
  apply (unfold round_to_double_def Let_def floor_log2_def)
  apply (simp add: round_eval)
  apply (unfold round_to_double_def Let_def floor_log2_def)
  apply (simp add: round_eval)
  done

lemma times_100_of_5_tenths:
  "js_times (round_to_double (5 / 10)) (Finite 100) = Finite 50"
  apply (unfold round_to_double_def Let_def floor_log2_def)
  apply (simp add: round_eval)
  apply (unfold round_to_double_def Let_def floor_log2_def)
  apply (simp add: round_eval)
  done

lemma number_to_string_92: "number_to_string (Finite 92) = ''92''"
  apply (simp add: list_eval)
  apply (unfold round_to_double_def Let_def floor_log2_def)
  apply (simp add: round_eval)
  done

lemma number_to_string_50: "number_to_string (Finite 50) = ''50''"
  apply (simp add: list_eval)
  apply (unfold round_to_double_def Let_def floor_log2_def)
  apply (simp add: round_eval)
  done

lemma percent_number:
  "percent s2n (Inr (JNumber p))
     = Inr (JString (number_to_string (js_times p (Finite 100)) @ ''%''))"
  by (simp add: percent_def template1_def times_def and_then_def)

text \<open>
  C2. The subject and the message that each alert type gives for a sub-alert:
  for log errors the path of the log file and the raw message; for disk space
  \<^verbatim>\<open>High disk usage on\<close> followed by the mount point, and the used fraction times 100
  followed by \<^verbatim>\<open>%\<close>; for memory usage \<^verbatim>\<open>High memory usage\<close> and the used fraction
  times 100 followed by \<^verbatim>\<open>%\<close>; for systemd \<^verbatim>\<open>Down systemd service\<close> and the name
  and state of the service joined by \<^verbatim>\<open>is\<close>; for an unhealthy container
  \<^verbatim>\<open>Unhealthy docker container\<close> and the name and status of the container joined by
  \<^verbatim>\<open>is\<close>. The product and its decimal form are those of JavaScript Numbers; for the
  used fraction 0.92 the message is exactly \<^verbatim>\<open>92%\<close>.
\<close>

theorem formatter_table:
  "getSubjectFunc log_errors alert = path alert [''_source'', ''log'', ''file'', ''path'']
 \<and> getMessageFunc log_errors alert = path alert [''_source'', ''message'']
 \<and> (path alert [''_source'', ''system'', ''filesystem'', ''mount_point''] = Inr (JString mount)
      \<longrightarrow> getSubjectFunc (disk_space s2n) alert
            = Inr (JString (''High disk usage on '' @ mount)))
 \<and> (path alert [''_source'', ''system'', ''filesystem'', ''used'', ''pct''] = Inr (JNumber p)
      \<longrightarrow> getMessageFunc (disk_space s2n) alert
            = Inr (JString (number_to_string (js_times p (Finite 100)) @ ''%'')))
 \<and> (path alert [''_source'', ''system'', ''filesystem'', ''used'', ''pct'']
        = Inr (JNumber (round_to_double (92 / 100)))
      \<longrightarrow> getMessageFunc (disk_space s2n) alert = Inr (JString ''92%''))
 \<and> getSubjectFunc (memory_usage s2n) alert = Inr (JString ''High memory usage'')
 \<and> (path alert [''_source'', ''system'', ''memory'', ''actual'', ''used'', ''pct'']
        = Inr (JNumber q)
      \<longrightarrow> getMessageFunc (memory_usage s2n) alert
            = Inr (JString (number_to_string (js_times q (Finite 100)) @ ''%'')))
 \<and> getSubjectFunc systemd alert = Inr (JString ''Down systemd service'')
 \<and> (path alert [''_source'', ''system'', ''service'', ''name''] = Inr (JString name)
      \<longrightarrow> path alert [''_source'', ''system'', ''service'', ''state''] = Inr (JString state)
      \<longrightarrow> getMessageFunc systemd alert = Inr (JString (name @ '' is '' @ state)))
 \<and> getSubjectFunc docker_unhealthy_container alert = Inr (JString ''Unhealthy docker container'')
 \<and> (path alert [''_source'', ''container'', ''name''] = Inr (JString container)
      \<longrightarrow> path alert [''_source'', ''docker'', ''container'', ''status''] = Inr (JString status)
      \<longrightarrow> getMessageFunc docker_unhealthy_container alert
            = Inr (JString (container @ '' is '' @ status)))"
proof -
  have disk: "getMessageFunc (disk_space s2n) alert
                = percent s2n (path alert [''_source'', ''system'', ''filesystem'', ''used'', ''pct''])"
    and memory: "getMessageFunc (memory_usage s2n) alert
                = percent s2n
                    (path alert [''_source'', ''system'', ''memory'', ''actual'', ''used'', ''pct''])"
    by (simp_all add: disk_space_def memory_usage_def)
  have mount: "getSubjectFunc (disk_space s2n) alert
                = template1 ''High disk usage on ''
                    (path alert [''_source'', ''system'', ''filesystem'', ''mount_point'']) []"
    by (simp add: disk_space_def)
  have service: "getMessageFunc systemd alert
                = template2 (path alert [''_source'', ''system'', ''service'', ''name'']) '' is ''
                    (path alert [''_source'', ''system'', ''service'', ''state''])"
    by (simp add: systemd_def)
  have docker: "getMessageFunc docker_unhealthy_container alert
                = template2 (path alert [''_source'', ''container'', ''name'']) '' is ''
                    (path alert [''_source'', ''docker'', ''container'', ''status''])"
    by (simp add: docker_unhealthy_container_def)
  have fixed: "getSubjectFunc log_errors alert = path alert [''_source'', ''log'', ''file'', ''path'']"
    "getMessageFunc log_errors alert = path alert [''_source'', ''message'']"
    "getSubjectFunc (memory_usage s2n) alert = Inr (JString ''High memory usage'')"
    "getSubjectFunc systemd alert = Inr (JString ''Down systemd service'')"
    "getSubjectFunc docker_unhealthy_container alert = Inr (JString ''Unhealthy docker container'')"
    by (simp_all add: log_errors_def memory_usage_def systemd_def docker_unhealthy_container_def)
  show ?thesis
    unfolding disk memory mount service docker fixed
    by (simp add: percent_number times_100_of_92_hundredths_reduced number_to_string_92
        template1_def template2_def and_then_def del: path.simps)
qed

theorem formatter_table_witness:
  "getSubjectFunc log_errors io_error = Inr (JString ''/var/log/syslog'')
 \<and> getMessageFunc log_errors io_error = Inr (JString ''I/O error, dev sda, sector 2048'')
 \<and> getSubjectFunc (disk_space (\<lambda>s. NaN)) disk_full = Inr (JString ''High disk usage on /data'')
 \<and> getMessageFunc (disk_space (\<lambda>s. NaN)) disk_full = Inr (JString ''92%'')
 \<and> getSubjectFunc (memory_usage (\<lambda>s. NaN)) memory_high = Inr (JString ''High memory usage'')
 \<and> getMessageFunc (memory_usage (\<lambda>s. NaN)) memory_high = Inr (JString ''50%'')
 \<and> getSubjectFunc systemd nginx_down = Inr (JString ''Down systemd service'')
 \<and> getMessageFunc systemd nginx_down = Inr (JString ''nginx is failed'')
 \<and> getSubjectFunc docker_unhealthy_container redis_unhealthy
       = Inr (JString ''Unhealthy docker container'')
 \<and> getMessageFunc docker_unhealthy_container redis_unhealthy
       = Inr (JString ''redis is Up 2 hours (unhealthy)'')"
proof -
  have log: "path io_error [''_source'', ''log'', ''file'', ''path''] = Inr (JString ''/var/log/syslog'')"
    "path io_error [''_source'', ''message''] = Inr (JString ''I/O error, dev sda, sector 2048'')"
    by (simp_all add: io_error_def and_then_def)
  have disk: "path disk_full [''_source'', ''system'', ''filesystem'', ''mount_point'']
                = Inr (JString ''/data'')"
    "path disk_full [''_source'', ''system'', ''filesystem'', ''used'', ''pct'']
       = Inr (JNumber (round_to_double (92 / 100)))"
    by (simp_all add: disk_full_def and_then_def)
  have memory: "path memory_high [''_source'', ''system'', ''memory'', ''actual'', ''used'', ''pct'']
                  = Inr (JNumber (round_to_double (5 / 10)))"
    by (simp add: memory_high_def and_then_def)
  have service: "path nginx_down [''_source'', ''system'', ''service'', ''name'']
                   = Inr (JString ''nginx'')"
    "path nginx_down [''_source'', ''system'', ''service'', ''state''] = Inr (JString ''failed'')"
    by (simp_all add: nginx_down_def and_then_def)
  have docker: "path redis_unhealthy [''_source'', ''container'', ''name''] = Inr (JString ''redis'')"
    "path redis_unhealthy [''_source'', ''docker'', ''container'', ''status'']
       = Inr (JString ''Up 2 hours (unhealthy)'')"
    by (simp_all add: redis_unhealthy_def and_then_def)
  have fifty: "number_to_string (js_times (round_to_double (5 / 10)) (Finite 100)) = ''50''"
    by (simp only: times_100_of_5_tenths number_to_string_50)
  note rows =
    formatter_table [where alert = io_error]
    formatter_table [where alert = disk_full and s2n = "\<lambda>s. NaN" and mount = "''/data''"]
    formatter_table [where alert = memory_high and s2n = "\<lambda>s. NaN"
      and q = "round_to_double (5 / 10)"]
    formatter_table [where alert = nginx_down and name = "''nginx''" and state = "''failed''"]
    formatter_table [where alert = redis_unhealthy and container = "''redis''"
      and status = "''Up 2 hours (unhealthy)''"]
  show ?thesis
    using rows log disk memory service docker fifty
    by (simp del: path.simps)
qed

section \<open>Exactly once, or requeued\<close>

lemma for_each_blocks:
  assumes "for_each body xs tr = (evs, None)"
  shows "\<exists>blocks. evs = concat blocks
                \<and> list_all2 (\<lambda>x block. \<exists>tr'. body x tr' = (block, None)) xs blocks"
  using assms
proof (induction xs arbitrary: tr evs)
  case Nil
  then show ?case by simp
next
  case (Cons x xs)
  obtain evs1 r1 where b: "body x tr = (evs1, r1)"
    by (cases "body x tr")
  obtain evs2 r2 where l: "for_each body xs (tr @ evs1) = (evs2, r2)"
    by (cases "for_each body xs (tr @ evs1)")
  from Cons.prems b l have "r1 = None" and "r2 = None" and evs: "evs = evs1 @ evs2"
    by (cases r1; simp)+
  from Cons.IH [of "tr @ evs1" evs2] l \<open>r2 = None\<close> obtain blocks where
    "evs2 = concat blocks"
    "list_all2 (\<lambda>x block. \<exists>tr'. body x tr' = (block, None)) xs blocks"
    by blast
  with b \<open>r1 = None\<close> evs show ?case
    by (intro exI [of _ "evs1 # blocks"]) auto
qed

lemma send_alert_once:
  assumes "send_alert env alertType alert tr = (evs, None)"
    and "\<And>message. getMessageFunc alertType alert = Inr message
           \<Longrightarrow> \<exists>line. posted_line message = Inr line"
  shows "delivered_once evs \<noteq> requeued_once evs"
proof -
  obtain host subject message where
    fields: "path alert [''_source'', ''host''] = Inr host"
      "getSubjectFunc alertType alert = Inr subject"
      "getMessageFunc alertType alert = Inr message"
    using assms(1)
    by (auto simp: send_alert_def simp del: path.simps split: sum.splits)
  from assms(2) [OF fields(3)] obtain line where line: "posted_line message = Inr line"
    by blast
  show ?thesis
    using assms(1) fields line
    by (auto simp: send_alert_def try_send_def requeue_def Let_def simp del: path.simps
        split: sum.splits slack_reply.splits)
qed

text \<open>
  Apart from the case shown below, the dispatcher does what C1 says: when it completes a
  record and the line \<^verbatim>\<open>posted ... chars\<close> can be built for each message, its calls are
  one group per sub-alert, in order, each group either a delivery or a requeue, followed by
  the one successful delete of the record. An empty list gives the delete alone.
\<close>

lemma each_sub_alert_once:
  assumes "alert_contexts env h = Inr alerts"
    and "dispatch_hit env alertType h tr = (evs, None)"
    and "\<And>alert message. alert \<in> set alerts \<Longrightarrow> getMessageFunc alertType alert = Inr message
           \<Longrightarrow> \<exists>line. posted_line message = Inr line"
  shows "\<exists>blocks. evs = concat blocks @ [Delete (esIndex alertType) (hit_id h) None]
                \<and> list_all2 (\<lambda>alert block. delivered_once block \<noteq> requeued_once block)
                     alerts blocks"
proof -
  obtain sent where loop: "for_each (send_alert env alertType) alerts tr = (sent, None)"
    and evs: "evs = sent @ [Delete (esIndex alertType) (hit_id h) None]"
    using assms(1,2)
    by (auto simp: dispatch_hit_def Let_def split: prod.splits option.splits)
  from for_each_blocks [OF loop] obtain blocks where
    blocks: "sent = concat blocks"
      "list_all2 (\<lambda>x block. \<exists>tr'. send_alert env alertType x tr' = (block, None)) alerts blocks"
    by blast
  have "list_all2 (\<lambda>alert block. delivered_once block \<noteq> requeued_once block) alerts blocks"
    using blocks(2)
  proof (rule list.rel_mono_strong)
    fix alert block
    assume "alert \<in> set alerts"
      and "block \<in> set blocks"
      and "\<exists>tr'. send_alert env alertType alert tr' = (block, None)"
    then show "delivered_once block \<noteq> requeued_once block"
      using send_alert_once assms(3) by blast
  qed
  with evs blocks(1) show ?thesis
    by blast
qed

lemma posted_line_of_template:
  assumes "alertType \<in> {disk_space s2n, memory_usage s2n, systemd, docker_unhealthy_container}"
    and "getMessageFunc alertType alert = Inr message"
  shows "\<exists>line. posted_line message = Inr line"
proof -
  have "\<exists>s. message = JString s"
    using assms
    by (auto simp: disk_space_def memory_usage_def systemd_def docker_unhealthy_container_def
        percent_def template1_def template2_def and_then_def simp del: path.simps
        split: sum.splits)
  then show ?thesis
    by (auto simp: posted_line_string)
qed

lemma empty_list_record_removed:
  assumes "alert_contexts env h = Inr []"
  shows "dispatch_hit env alertType h tr =
           ([Delete (esIndex alertType) (hit_id h) (es_delete env tr (esIndex alertType) (hit_id h))],
            map_option EsError (es_delete env tr (esIndex alertType) (hit_id h)))"
  using assms by (simp add: dispatch_hit_def Let_def)

lemma empty_list_run:
  "dispatcher nothing_to_send (disk_space s2n) [] =
     ([Search ''alerts-disk-space'', Delete ''alerts-disk-space'' ''r1'' None], None)"
proof -
  have decoded: "alert_contexts nothing_to_send (alert_record ''r1'') = Inr []"
    by (simp add: alert_contexts_def alert_record_def nothing_to_send_def calm_def and_then_def)
  have world: "es_search nothing_to_send tr i = Inr [alert_record ''r1'']"
    "es_delete nothing_to_send tr i k = None" for tr i k
    by (simp_all add: nothing_to_send_def calm_def)
  show ?thesis
    by (simp add: dispatcher_def world empty_list_record_removed [OF decoded])
      (simp add: disk_space_def alert_record_def)
qed

text \<open>
  C1 fails on the code for a log error that has no \<^verbatim>\<open>message\<close> field. The send is
  answered ok; building the line for \<^verbatim>\<open>console.log\<close> then reads \<^verbatim>\<open>message.length\<close>
  of \<^verbatim>\<open>undefined\<close>, still inside the \<^verbatim>\<open>try\<close> block; the \<^verbatim>\<open>TypeError\<close> is caught and
  the sub-alert that was just delivered is also stored in the unsent queue. The record is
  processed to completion and deleted.
\<close>

theorem missing_message_sent_and_requeued:
  "dispatch_hit message_missing log_errors (alert_record ''r1'') [] =
     ([PostMessage slackChannel silent_error_text Ok,
       ConsoleError TypeError,
       Index unsentSlacksIndex
         (JObject [(''host'', JString ''web1''),
                   (''subject'', JString ''/var/log/syslog''),
                   (''message'', JUndefined)])
         None,
       Delete ''alerts-log-errors'' ''r1'' None],
      None)"
proof -
  have decoded: "alert_contexts message_missing (alert_record ''r1'') = Inr [silent_error]"
    by (simp add: alert_contexts_def alert_record_def message_missing_def calm_def and_then_def)
  have fields: "path silent_error [''_source'', ''host''] = Inr (JString ''web1'')"
    "getSubjectFunc log_errors silent_error = Inr (JString ''/var/log/syslog'')"
    "getMessageFunc log_errors silent_error = Inr JUndefined"
    by (simp_all add: silent_error_def log_errors_def and_then_def)
  have posted: "alert_text (JString ''/var/log/syslog'') (JString ''web1'') JUndefined
                  = Inr silent_error_text"
    by (simp add: alert_text_def and_then_def silent_error_text_def anger_def repeat_def
        numeral_eq_Suc)
  have line: "posted_line JUndefined = Inl TypeError"
    by (simp add: posted_line_def and_then_def)
  have world: "slack_postMessage message_missing tr c t = Ok"
    "es_index message_missing tr i b = None" "es_delete message_missing tr i k = None"
    for tr c t i b k
    by (simp_all add: message_missing_def calm_def)
  have "send_alert message_missing log_errors silent_error [] =
     ([PostMessage slackChannel silent_error_text Ok,
       ConsoleError TypeError,
       Index unsentSlacksIndex
         (JObject [(''host'', JString ''web1''),
                   (''subject'', JString ''/var/log/syslog''),
                   (''message'', JUndefined)])
         None],
      None)"
    by (simp add: send_alert_def fields try_send_def posted line world requeue_def
        unsent_body_def del: path.simps)
  then show ?thesis
    by (simp add: dispatch_hit_def decoded world) (simp add: log_errors_def alert_record_def)
qed

end
